theory Spec2Isabelle
  imports Complex_Main "HOL-Library.Word"
begin

section \<open>Path utilities (action.go, depth and toRemoteWorkingDir)\<close>

text \<open>
  The host operating system the proxy is built for (Go's \<open>runtime.GOOS\<close>, reduced to the
  two families the standard library distinguishes for paths). \<open>os.IsPathSeparator\<close> and
  \<open>os.PathSeparator\<close> are the standard library's: on a POSIX host only the slash separates,
  on a Windows host the slash and the backslash (byte 0x5C) both do.
\<close>

datatype goos = posix | windows

fun IsPathSeparator :: "goos \<Rightarrow> char \<Rightarrow> bool" where
  "IsPathSeparator posix c = (c = CHR ''/'')"
| "IsPathSeparator windows c = (c = CHR 0x5C \<or> c = CHR ''/'')"

fun Separator :: "goos \<Rightarrow> char" where
  "Separator posix = CHR ''/''"
| "Separator windows = CHR 0x5C"

text \<open>
  \<open>depth\<close>: the loop \<open>for i := 0; i < len(path); i++\<close> walks the bytes of the path from
  left to right and adds one to \<open>d\<close> at each separator; \<open>d\<close> starts at 1.
\<close>

fun depth_loop :: "goos \<Rightarrow> string \<Rightarrow> nat \<Rightarrow> nat" where
  "depth_loop os [] d = d"
| "depth_loop os (c # cs) d = depth_loop os cs (if IsPathSeparator os c then d + 1 else d)"

definition depth :: "goos \<Rightarrow> string \<Rightarrow> nat" where
  "depth os path = (if path = [] then 0 else depth_loop os path 1)"

text \<open>
  \<open>filepath.Clean\<close> of the standard library, POSIX build (no volume names, \<open>FromSlash\<close> is
  the identity). The reading index \<open>r\<close> is kept as the unread rest \<open>path[r:]\<close> of the path,
  the lazy buffer as the bytes written so far (\<open>out.w\<close> is their number), \<open>dotdot\<close> as in
  the library.

  \<open>at_end_or_sep os p\<close> is the test \<open>r+k == n || os.IsPathSeparator(path[r+k])\<close> on the
  rest \<open>p = path[r+k:]\<close>.
\<close>

fun at_end_or_sep :: "goos \<Rightarrow> string \<Rightarrow> bool" where
  "at_end_or_sep os [] = True"
| "at_end_or_sep os (c # cs) = IsPathSeparator os c"

text \<open>
  The ``..'' case when the buffer can give an element back: \<open>out.w--\<close>, then
  \<open>for out.w > dotdot && !os.IsPathSeparator(out.index(out.w)) { out.w-- }\<close>. The byte
  tested is the one just dropped.
\<close>

function backtrack :: "goos \<Rightarrow> string \<Rightarrow> nat \<Rightarrow> string" where
  "backtrack os out dotdot =
     (if out = [] then []
      else if length (butlast out) > dotdot \<and> \<not> IsPathSeparator os (last out)
           then backtrack os (butlast out) dotdot
           else butlast out)"
  by pat_completeness auto
termination
  by (relation "measure (\<lambda>(os, out, dotdot). length out)") auto

declare backtrack.simps [simp del]

function Clean_loop :: "goos \<Rightarrow> bool \<Rightarrow> string \<Rightarrow> string \<Rightarrow> nat \<Rightarrow> string" where
  "Clean_loop os rooted [] out dotdot = out"
| "Clean_loop os rooted (c # cs) out dotdot =
     (if IsPathSeparator os c then
        Clean_loop os rooted cs out dotdot
      else if c = CHR ''.'' \<and> at_end_or_sep os cs then
        Clean_loop os rooted cs out dotdot
      else if c = CHR ''.'' \<and> cs \<noteq> [] \<and> hd cs = CHR ''.'' \<and> at_end_or_sep os (tl cs) then
        (if length out > dotdot then
           Clean_loop os rooted (tl cs) (backtrack os out dotdot) dotdot
         else if \<not> rooted then
           Clean_loop os rooted (tl cs)
             ((if length out > 0 then out @ [Separator os] else out) @ ''..'')
             (length ((if length out > 0 then out @ [Separator os] else out) @ ''..''))
         else
           Clean_loop os rooted (tl cs) out dotdot)
      else
        Clean_loop os rooted (dropWhile (\<lambda>x. \<not> IsPathSeparator os x) cs)
          ((if rooted \<and> length out \<noteq> 1 \<or> \<not> rooted \<and> length out \<noteq> 0
            then out @ [Separator os] else out)
           @ c # takeWhile (\<lambda>x. \<not> IsPathSeparator os x) cs)
          dotdot)"
  by pat_completeness auto
termination
  by (relation "measure (\<lambda>(os, rooted, p, out, dotdot). length p)")
     (auto simp: less_Suc_eq_le length_dropWhile_le)

definition Clean_posix :: "string \<Rightarrow> string" where
  "Clean_posix path =
     (if path = [] then ''.''
      else if IsPathSeparator posix (hd path) then
        (let out = Clean_loop posix True (tl path) [Separator posix] 1
         in if out = [] then ''.'' else out)
      else
        (let out = Clean_loop posix False path [] 0
         in if out = [] then ''.'' else out))"

text \<open>\<open>strings.Join(elems, sep)\<close>.\<close>

fun strings_Join :: "string list \<Rightarrow> string \<Rightarrow> string" where
  "strings_Join [] sep = []"
| "strings_Join [e] sep = e"
| "strings_Join (e # es) sep = e @ sep @ strings_Join es sep"

text \<open>
  \<open>filepath.Join\<close>, POSIX build: the elements from the first non-empty one on, joined by
  the separator and cleaned; the empty string when every element is empty.
\<close>

definition Join_posix :: "string list \<Rightarrow> string" where
  "Join_posix elem =
     (case dropWhile (\<lambda>e. e = []) elem of
        [] \<Rightarrow> []
      | es \<Rightarrow> Clean_posix (strings_Join es [Separator posix]))"

text \<open>
  The host as \<open>toRemoteWorkingDir\<close> sees it: its separators, and the two functions of
  \<open>path/filepath\<close> it calls. \<open>posix_host\<close> is the POSIX build of the library.
\<close>

record host =
  GOOS :: goos
  Clean :: "string \<Rightarrow> string"
  Join :: "string list \<Rightarrow> string"

definition posix_host :: host where
  "posix_host = \<lparr>GOOS = posix, Clean = Clean_posix, Join = Join_posix\<rparr>"

datatype panic = index_out_of_range | nil_pointer_dereference

text \<open>
  \<open>toRemoteWorkingDir\<close>. \<open>elem := make([]string, dirDepth)\<close> is a slice of \<open>dirDepth\<close>
  empty strings; \<open>elem[0] = "set_by_reclient"\<close> panics when \<open>dirDepth\<close> is 0; the loop sets
  the elements 1 to \<open>dirDepth - 1\<close> to \<open>"a"\<close>.
\<close>

definition toRemoteWorkingDir :: "host \<Rightarrow> string \<Rightarrow> panic + string" where
  "toRemoteWorkingDir h workingDir =
     (if workingDir = [] \<or> workingDir = ''.'' then Inr workingDir
      else let dirDepth = depth (GOOS h) (Clean h workingDir)
           in if dirDepth = 0 then Inl index_out_of_range
              else Inr (Join h (''set_by_reclient'' # replicate (dirDepth - 1) ''a'')))"

section \<open>Errors, results and the log record\<close>

text \<open>
  Go's \<open>error\<close> values, as far as the action code tells them apart: the two errors of
  package \<open>context\<close>, an error made from a message (\<open>errors.New\<close>, \<open>fmt.Errorf\<close> without
  \<open>%w\<close>), the error of a non-zero exit code, and an error that wraps another
  (\<open>fmt.Errorf\<close> with \<open>%w\<close>). A nil error is \<open>None\<close> of \<open>goerror option\<close>.
\<close>

datatype goerror =
    context_Canceled
  | context_DeadlineExceeded
  | errorString string
  | exit_error int
  | wrapError string goerror

text \<open>\<open>errors.Is(err, target)\<close> for a non-nil \<open>err\<close>: follows the chain of wrapped errors.\<close>

fun errors_Is :: "goerror \<Rightarrow> goerror \<Rightarrow> bool" where
  "errors_Is (wrapError msg e) target = (wrapError msg e = target \<or> errors_Is e target)"
| "errors_Is e target = (e = target)"

text \<open>
  Modelled from the spec: the \<open>Result\<close> of the remote-execution SDK (package \<open>command\<close>,
  not part of this repository), ``a triple \<open>{exit_code, err, status}\<close>'' with the
  constructors from-exit-code and from-local-error; ``a result is ok when it has no
  error field''. The exit code 35 of a local error is the SDK's constant.
\<close>

datatype ResultStatus =
    SuccessResultStatus
  | CacheHitResultStatus
  | NonZeroExitResultStatus
  | TimeoutResultStatus
  | InterruptedResultStatus
  | RemoteErrorResultStatus
  | LocalErrorResultStatus

record Result =
  ExitCode :: int
  Err :: "goerror option"
  Status :: ResultStatus

definition IsOk :: "Result \<Rightarrow> bool" where
  "IsOk r = (Err r = None)"

definition NewLocalErrorResult :: "goerror \<Rightarrow> Result" where
  "NewLocalErrorResult e = \<lparr>ExitCode = 35, Err = Some e, Status = LocalErrorResultStatus\<rparr>"

definition NewResultFromExitCode :: "int \<Rightarrow> Result" where
  "NewResultFromExitCode exitCode =
     (if exitCode = 0 then \<lparr>ExitCode = 0, Err = None, Status = SuccessResultStatus\<rparr>
      else \<lparr>ExitCode = exitCode, Err = Some (exit_error exitCode), Status = NonZeroExitResultStatus\<rparr>)"

text \<open>
  \<open>time.Time\<close> and \<open>time.Duration\<close> in nanoseconds; a content digest (hash and size); the
  entry of the file-metadata cache (the spec: \<open>md\<close> carries \<open>{digest, mtime, isDirectory,
  err}\<close>); a recording output sink with what was written to it.
\<close>

type_synonym Time = int
type_synonym Digest = "string \<times> int"

record filemetadata_Metadata =
  Digest :: Digest
  MTime :: Time
  IsDirectory :: bool
  Err :: "goerror option"

record OutErr =
  Stdout :: string
  Stderr :: string

text \<open>
  The command (\<open>command.Command\<close>, with \<open>Identifiers.ExecutionID\<close> as a field of its own),
  the remote execution options (the protobuf message; \<open>execOptionsFromProto\<close> carries
  the fields over as they are), the metadata of a remote execution, and the execution
  context of the SDK with its mutable \<open>Result\<close> and \<open>Metadata\<close>.
\<close>

record Command =
  ExecutionID :: string
  Args :: "string list"
  ExecRoot :: string
  WorkingDir :: string
  OutputFiles :: "string list"
  OutputDirs :: "string list"

record RemoteExecutionOptions =
  Wrapper :: string
  DownloadOutputs :: bool
  PreserveUnchangedOutputMtime :: bool

record command_Metadata =
  ActionDigest :: string

text \<open>
  The log record (\<open>logger.LogRecord\<close> around the protobuf \<open>LogRecord\<close>): its two
  sub-messages are pointers and may be nil.
\<close>

record LocalMetadata =
  ExecutedLocally :: bool
  ValidCacheHit :: bool
  UpdatedCache :: bool
  Result :: "Result option"
  EventTimes :: "string \<rightharpoonup> Time \<times> Time"
  Environment :: "string \<rightharpoonup> string"
  Labels :: "string \<rightharpoonup> string"

record RemoteMetadata =
  CacheHit :: bool
  Result :: "Result option"
  ActionDigest :: string

record LogRecord =
  LocalMetadata :: "LocalMetadata option"
  RemoteMetadata :: "RemoteMetadata option"

record Context =
  Result :: "Result option"
  Metadata :: command_Metadata

text \<open>\<open>&lpb.LocalMetadata{}\<close>: every field at its zero value.\<close>

definition empty_LocalMetadata :: LocalMetadata where
  "empty_LocalMetadata =
     \<lparr>ExecutedLocally = False, ValidCacheHit = False, UpdatedCache = False,
      LocalMetadata.Result = None, EventTimes = Map.empty, Environment = Map.empty,
      Labels = Map.empty\<rparr>"

text \<open>
  The functions of package \<open>logger\<close> the action calls. The package is not among the
  sources, so they are parameters: the conversion of the SDK's metadata to the
  protobuf message, \<open>RecordEventTime\<close> for an event name, and \<open>CopyEventTimesFrom\<close> (its
  first argument is the record copied from).
\<close>

record logger =
  CommandRemoteMetadataToProto :: "command_Metadata \<Rightarrow> RemoteMetadata"
  RecordEventTime :: "string \<Rightarrow> LogRecord \<Rightarrow> LogRecord"
  CopyEventTimesFrom :: "LogRecord \<Rightarrow> LogRecord \<Rightarrow> LogRecord"

text \<open>
  The dependency parser (\<open>deps.Parser\<close>). Modelled from the spec:
  \<open>verify_deps_file(path, logRecord) \<rightarrow> (ok, err)\<close>; what it writes to the log record is
  left out.
\<close>

record Parser =
  parser_ExecRoot :: string

record deps =
  VerifyDepsFile :: "Parser \<Rightarrow> string \<Rightarrow> bool \<times> goerror option"

text \<open>
  The calls of the remote-execution SDK on an execution context. Each leaves its
  outcome in the context's \<open>Result\<close> and \<open>Metadata\<close>; \<open>NewContext\<close> fails or returns a
  context; \<open>GetOutputFileDigests\<close> fails or returns the map from output path to digest,
  listed in the order the \<open>range\<close> loop visits it.
\<close>

record rexec =
  NewContext :: "Command \<Rightarrow> goerror + Context"
  GetCachedResult :: "Context \<Rightarrow> Context"
  ExecuteRemotely :: "Context \<Rightarrow> Context"
  DownloadOutputs :: "string \<Rightarrow> Context \<Rightarrow> Context"
  GetOutputFileDigests :: "Context \<Rightarrow> goerror + (string \<times> Digest) list"

section \<open>The action\<close>

datatype resultType = remote | local | canceled

record raceResult =
  res :: "Result option"
  oe :: "OutErr option"
  t :: resultType

text \<open>
  The \<open>action\<close> struct, with the fields the functions below read or write. Pointers and
  interfaces that may be nil are options. \<open>fmc\<close> is the file-metadata cache, read with
  \<open>Get\<close>; \<open>racingBias\<close> is a finite \<open>float64\<close>, written as the real number it stands for.
\<close>

record action =
  cmd :: Command
  fmc :: "string \<Rightarrow> filemetadata_Metadata"
  oe :: "OutErr option"
  rec :: "LogRecord option"
  rOpt :: RemoteExecutionOptions
  racingBias :: real
  racingTmp :: string
  execContext :: "Context option"
  parser :: "Parser option"
  dFile :: string
  depsFile :: string
  res :: "Result option"

subsection \<open>Cached results: getCachedResult and cachedResultValid\<close>

definition createParser :: "action \<Rightarrow> action" where
  "createParser a =
     (case parser a of
        Some p \<Rightarrow> a
      | None \<Rightarrow> a\<lparr>parser := Some \<lparr>parser_ExecRoot = ExecRoot (cmd a)\<rparr>\<rparr>)"

text \<open>
  \<open>cachedResultValid\<close> returns the action as well, since it may create the parser.
\<close>

definition cachedResultValid :: "deps \<Rightarrow> action \<Rightarrow> action \<times> bool" where
  "cachedResultValid dp a =
     (if dFile a = [] then (a, True)
      else let a1 = (if parser a = None then createParser a else a)
           in case parser a1 of
                None \<Rightarrow> (a1, False)
              | Some p \<Rightarrow>
                  (case VerifyDepsFile dp p (dFile a1) of
                     (ok, Some err) \<Rightarrow> (a1, False)
                   | (ok, None) \<Rightarrow> (a1, ok)))"

text \<open>
  \<open>getCachedResult\<close>. A nil \<open>a.rec\<close>, and a nil \<open>a.rec.LocalMetadata\<close> at the last
  assignment, are nil-pointer panics.
\<close>

definition getCachedResult :: "logger \<Rightarrow> rexec \<Rightarrow> deps \<Rightarrow> action \<Rightarrow> panic + action" where
  "getCachedResult lg sdk dp a =
     (case execContext a of
        None \<Rightarrow> Inr a
      | Some ec0 \<Rightarrow>
          (let ec = GetCachedResult sdk ec0 in
           case rec a of
             None \<Rightarrow> Inl nil_pointer_dereference
           | Some r \<Rightarrow>
               (let rm0 = CommandRemoteMetadataToProto lg (Metadata ec);
                    a1 = a\<lparr>execContext := Some ec,
                           rec := Some (r\<lparr>RemoteMetadata := Some rm0\<rparr>),
                           res := Context.Result ec\<rparr>
                in case Context.Result ec of
                     None \<Rightarrow> Inr a1
                   | Some cr \<Rightarrow>
                       if \<not> IsOk cr then Inr a1
                       else
                         (let rm = rm0\<lparr>CacheHit := True, RemoteMetadata.Result := Some cr\<rparr>;
                              r1 = r\<lparr>RemoteMetadata := Some rm\<rparr>;
                              a2 = a1\<lparr>rec := Some r1\<rparr>;
                              (a3, valid) = cachedResultValid dp a2
                          in if \<not> valid then
                               Inr (a3\<lparr>res := Some (NewLocalErrorResult
                                      (errorString (ExecutionID (cmd a3) @ '' failed deps validation'')))\<rparr>)
                             else
                               (case LocalMetadata r1 of
                                  None \<Rightarrow> Inl nil_pointer_dereference
                                | Some lm \<Rightarrow>
                                    Inr (a3\<lparr>rec := Some (r1\<lparr>LocalMetadata :=
                                           Some (lm\<lparr>ValidCacheHit := True\<rparr>)\<rparr>)\<rparr>))))))"

subsection \<open>The local attempt of a race: runLocalRace\<close>

text \<open>
  What \<open>pool.Run(ctx, cCtx, a.cmd, a.lbls, lOE, lr)\<close> returned and left behind: the exit
  code, the error, what the command wrote to the fresh sink \<open>lOE\<close>, and the fresh log
  record \<open>lr\<close> with the pool's event times.
\<close>

record pool_Run =
  exitCode :: int
  err :: "goerror option"
  lOE :: OutErr
  lr :: LogRecord

text \<open>
  The end of \<open>runLocalRace\<close>, from \<open>a.res = command.NewResultFromExitCode(exitCode)\<close> on:
  local ran, and its result is used whatever the remote attempt does.
\<close>

definition runLocalRace_ran :: "logger \<Rightarrow> pool_Run \<Rightarrow> action \<Rightarrow> panic + action \<times> raceResult" where
  "runLocalRace_ran lg run a =
     (let a1 = a\<lparr>res := Some (NewResultFromExitCode (exitCode run))\<rparr>
      in case rec a1 of
           None \<Rightarrow> Inl nil_pointer_dereference
         | Some r \<Rightarrow>
             (let lm = (case LocalMetadata r of None \<Rightarrow> empty_LocalMetadata | Some m \<Rightarrow> m);
                  r1 = r\<lparr>LocalMetadata := Some (lm\<lparr>ExecutedLocally := True\<rparr>)\<rparr>;
                  r2 = CopyEventTimesFrom lg (lr run) r1
              in case LocalMetadata r2 of
                   None \<Rightarrow> Inl nil_pointer_dereference
                 | Some lm2 \<Rightarrow>
                     (let a2 = a1\<lparr>rec := Some (r2\<lparr>LocalMetadata :=
                                 Some (lm2\<lparr>LocalMetadata.Result := res a1\<rparr>)\<rparr>)\<rparr>
                      in Inr (a2, \<lparr>raceResult.res = res a2, oe = Some (lOE run), t = local\<rparr>))))"

definition runLocalRace :: "logger \<Rightarrow> pool_Run \<Rightarrow> action \<Rightarrow> panic + action \<times> raceResult" where
  "runLocalRace lg run a =
     (case err run of
        None \<Rightarrow> runLocalRace_ran lg run a
      | Some e \<Rightarrow>
          if errors_Is e context_Canceled then
            Inr (a, \<lparr>raceResult.res = None, oe = None, t = canceled\<rparr>)
          else if exitCode run = 0 then
            Inr (a, \<lparr>raceResult.res = Some (NewLocalErrorResult e), oe = None, t = canceled\<rparr>)
          else runLocalRace_ran lg run a)"

subsection \<open>The remote attempt of a race: runRemoteRace and the hold-off\<close>

text \<open>
  A signed 64-bit integer wraps around; Go's integer division truncates toward zero;
  \<open>Duration.Milliseconds\<close> is the division by \<open>1e6\<close>; \<open>time.Millisecond\<close> is \<open>1e6\<close>
  nanoseconds.
\<close>

definition int64 :: "int \<Rightarrow> int" where
  "int64 x = (x + 2 ^ 63) mod 2 ^ 64 - 2 ^ 63"

definition quot :: "int \<Rightarrow> int \<Rightarrow> int" where
  "quot x y = sgn x * sgn y * (\<bar>x\<bar> div \<bar>y\<bar>)"

definition Milliseconds :: "int \<Rightarrow> int" where
  "Milliseconds d = quot d 1000000"

definition Millisecond :: int where
  "Millisecond = 1000000"

text \<open>
  The conversion of a \<open>float64\<close> to \<open>int64\<close> (here \<open>time.Duration(...)\<close>) discards the
  fraction. When the value does not fit, the result depends on the implementation:
  \<open>None\<close>.
\<close>

definition int64_of_float64 :: "real \<Rightarrow> int option" where
  "int64_of_float64 x =
     (let n = (if 0 \<le> x then \<lfloor>x\<rfloor> else \<lceil>x\<rceil>)
      in if - (2 ^ 63) \<le> n \<and> n < 2 ^ 63 then Some n else None)"

text \<open>
  The hold-off \<open>sl\<close> the timer goroutine of the cache-hit path sleeps before it closes
  \<open>lCh\<close>:
  \<^verbatim>\<open>sl := time.Duration(float64(dl.Milliseconds())*(a.racingBias*2)) * time.Millisecond\<close>,
  clamped to \<open>maxHoldoff\<close>, where \<open>dl\<close> is the forecast or, when the forecast fails,
  \<open>maxHoldoff\<close>; \<open>bias\<close> is \<open>a.racingBias\<close>. A finite \<open>float64\<close> is the real number it
  stands for; \<open>rnd\<close> is the rounding of a real to the nearest \<open>float64\<close>, applied where
  the source converts to \<open>float64\<close> or multiplies two of them.
\<close>

definition holdoff :: "(real \<Rightarrow> real) \<Rightarrow> real \<Rightarrow> goerror + int \<Rightarrow> int \<Rightarrow> int option" where
  "holdoff rnd bias forecast maxHoldoff =
     (let dl = (case forecast of Inl e \<Rightarrow> maxHoldoff | Inr d \<Rightarrow> d)
      in case int64_of_float64 (rnd (rnd (of_int (Milliseconds dl)) * rnd (bias * 2))) of
           None \<Rightarrow> None
         | Some n \<Rightarrow>
             (let sl = int64 (n * Millisecond)
              in Some (if sl > maxHoldoff then maxHoldoff else sl)))"

text \<open>
  When \<open>lCh\<close> (the specification's \<open>start_local\<close>) is closed: at once, or by the timer
  goroutine after it has slept the hold-off.
\<close>

datatype start_local = closed_at_once | closed_after_holdoff "int option"

text \<open>
  What the remote attempt meets on its way: whether the sibling scope \<open>cCtx\<close> is done at
  each of its two \<open>select\<close> statements, the forecast of the download latency, and what
  the SDK wrote to the recording sink \<open>rOE\<close>.
\<close>

record remote_race_env =
  cCtx_done_after_execute :: bool
  cCtx_done_after_download :: bool
  PercentileDownloadLatency :: "goerror + int"
  rOE :: OutErr

text \<open>
  The end of \<open>runRemoteRace\<close>, from \<open>res := a.execContext.Result\<close> on. \<open>res.IsOk()\<close> on a nil
  result is a nil-pointer panic.
\<close>

definition runRemoteRace_download ::
  "rexec \<Rightarrow> remote_race_env \<Rightarrow> string \<Rightarrow> start_local \<Rightarrow> Context \<Rightarrow> action
     \<Rightarrow> panic + action \<times> raceResult \<times> start_local" where
  "runRemoteRace_download sdk env tmpDir sl ec a =
     (case Context.Result ec of
        None \<Rightarrow> Inl nil_pointer_dereference
      | Some r \<Rightarrow>
          if \<not> IsOk r then
            Inr (a, \<lparr>raceResult.res = Some r, oe = None, t = canceled\<rparr>, sl)
          else
            (let ec' = DownloadOutputs sdk tmpDir ec;
                 a' = a\<lparr>execContext := Some ec'\<rparr>
             in if cCtx_done_after_download env then
                  Inr (a', \<lparr>raceResult.res = None, oe = None, t = canceled\<rparr>, sl)
                else
                  (case Context.Result ec' of
                     None \<Rightarrow> Inl nil_pointer_dereference
                   | Some r' \<Rightarrow>
                       if \<not> IsOk r' then
                         Inr (a', \<lparr>raceResult.res = Some r', oe = Some (rOE env), t = canceled\<rparr>, sl)
                       else
                         Inr (a', \<lparr>raceResult.res = Some r', oe = Some (rOE env), t = remote\<rparr>, sl))))"

text \<open>
  \<open>rcmd\<close>: the command with the remote wrapper, if one is set, put before its arguments.
\<close>

definition rcmd :: "action \<Rightarrow> Command" where
  "rcmd a = (if Wrapper (rOpt a) \<noteq> [] then (cmd a)\<lparr>Args := Wrapper (rOpt a) # Args (cmd a)\<rparr>
             else cmd a)"

definition runRemoteRace ::
  "(real \<Rightarrow> real) \<Rightarrow> rexec \<Rightarrow> remote_race_env \<Rightarrow> string \<Rightarrow> int \<Rightarrow> action
     \<Rightarrow> panic + action \<times> raceResult \<times> start_local" where
  "runRemoteRace rnd sdk env tmpDir maxHoldoff a =
     (case NewContext sdk (rcmd a) of
        Inl e \<Rightarrow>
          Inr (a\<lparr>execContext := None\<rparr>,
               \<lparr>raceResult.res = Some (NewLocalErrorResult e), oe = None, t = canceled\<rparr>,
               closed_at_once)
      | Inr ec0 \<Rightarrow>
          (let ec1 = GetCachedResult sdk ec0
           in case Context.Result ec1 of
                None \<Rightarrow>
                  (let ec2 = ExecuteRemotely sdk ec1;
                       a2 = a\<lparr>execContext := Some ec2\<rparr>
                   in if cCtx_done_after_execute env then
                        Inr (a2, \<lparr>raceResult.res = None, oe = None, t = canceled\<rparr>, closed_at_once)
                      else runRemoteRace_download sdk env tmpDir closed_at_once ec2 a2)
              | Some r \<Rightarrow>
                  runRemoteRace_download sdk env tmpDir
                    (closed_after_holdoff
                       (holdoff rnd (racingBias a) (PercentileDownloadLatency env) maxHoldoff))
                    ec1 (a\<lparr>execContext := Some ec1\<rparr>)))"

subsection \<open>Restoring the modification times of unchanged outputs\<close>

text \<open>
  The operating system and the cache under \<open>restoreUnchangedOutputMtimes\<close>: for which
  paths \<open>os.Chtimes\<close> and \<open>fmc.Update\<close> fail. The modification times of the files on
  disk are a map from path to time; \<open>os.Chtimes\<close> that succeeds sets the entry of its
  path, \<open>fmc.Update\<close> that succeeds sets the cache entry of its path.
\<close>

record os_env =
  Chtimes_err :: "string \<Rightarrow> goerror option"
  fmc_Update_err :: "string \<Rightarrow> goerror option"

text \<open>
  The loop \<open>for out, d := range outDigests\<close>, over the entries in the order the loop
  visits them. The state is the cache and the modification times on disk. When
  \<open>os.Chtimes\<close> fails the function returns nil from inside the loop.
\<close>

fun restore_loop ::
  "host \<Rightarrow> os_env \<Rightarrow> Command \<Rightarrow> (string \<rightharpoonup> filemetadata_Metadata) \<Rightarrow> (string \<times> Digest) list
     \<Rightarrow> (string \<Rightarrow> filemetadata_Metadata) \<times> (string \<rightharpoonup> Time)
     \<Rightarrow> (string \<Rightarrow> filemetadata_Metadata) \<times> (string \<rightharpoonup> Time)" where
  "restore_loop h os c preExecOutsInfo [] st = st"
| "restore_loop h os c preExecOutsInfo ((out, d) # outDigests) (cache, mtimes) =
     (case preExecOutsInfo out of
        None \<Rightarrow> restore_loop h os c preExecOutsInfo outDigests (cache, mtimes)
      | Some fInfo \<Rightarrow>
          if Digest fInfo \<noteq> d then restore_loop h os c preExecOutsInfo outDigests (cache, mtimes)
          else
            (let absPath = Join h [ExecRoot c, WorkingDir c, out]
             in case Chtimes_err os absPath of
                  Some e \<Rightarrow> (cache, mtimes)
                | None \<Rightarrow>
                    (let m = (cache absPath)\<lparr>Digest := Digest fInfo, MTime := MTime fInfo\<rparr>
                     in restore_loop h os c preExecOutsInfo outDigests
                          (if fmc_Update_err os absPath = None then cache(absPath := m) else cache,
                           mtimes(absPath \<mapsto> MTime fInfo)))))"

definition restoreUnchangedOutputMtimes ::
  "host \<Rightarrow> rexec \<Rightarrow> os_env \<Rightarrow> (string \<rightharpoonup> filemetadata_Metadata)
     \<Rightarrow> action \<times> (string \<rightharpoonup> Time) \<Rightarrow> panic + goerror option \<times> action \<times> (string \<rightharpoonup> Time)" where
  "restoreUnchangedOutputMtimes h sdk os preExecOutsInfo st =
     (case st of (a, mtimes) \<Rightarrow>
        (case execContext a of
           None \<Rightarrow> Inl nil_pointer_dereference
         | Some ec \<Rightarrow>
             (case GetOutputFileDigests sdk ec of
                Inl e \<Rightarrow>
                  Inr (Some (errorString (ExecutionID (cmd a) @ '': Could not get output digests'')),
                       a, mtimes)
              | Inr outDigests \<Rightarrow>
                  (case restore_loop h os (cmd a) preExecOutsInfo outDigests (fmc a, mtimes) of
                     (cache, mtimes') \<Rightarrow> Inr (None, a\<lparr>fmc := cache\<rparr>, mtimes')))))"

subsection \<open>The race coordinator\<close>

text \<open>
  What a \<open>select\<close> of the coordinator takes: a race result from the channel \<open>ch\<close>, or
  the end of the parent scope, with \<open>ctx.Err()\<close>. The list of events a run of \<open>race\<close> is
  given is what its \<open>select\<close> statements take, in order; when the list is used up the
  coordinator is blocked in a \<open>select\<close>.
\<close>

datatype event = recv raceResult | ctx_Done goerror

text \<open>
  The parts of \<open>race\<close> that are calls to functions not modelled here: the snapshot
  \<open>getPreExecOutsInfo\<close> returns, the error of \<open>createTmpDir\<close> if it fails, and
  \<open>moveOutputsFromTemp\<close> as the error it returns or the modification times on disk after
  the move.
\<close>

record race_env =
  getPreExecOutsInfo :: "string \<rightharpoonup> filemetadata_Metadata"
  createTmpDir_err :: "goerror option"
  moveOutputsFromTemp :: "(string \<rightharpoonup> Time) \<Rightarrow> goerror + (string \<rightharpoonup> Time)"

text \<open>
  The two \<open>select\<close> statements of \<open>race\<close> (from \<open>var winner raceResult\<close> to the end of
  the \<open>if winner.t == remote || winner.t == canceled\<close> block): the coordinator is still
  waiting, or the parent scope ended, or there is a winner, with the counter
  \<open>numFallbacks\<close> and whether \<open>cancel()\<close> was called.
\<close>

datatype waited =
    waiting
  | parent_done goerror
  | winner raceResult "64 word" bool

fun race_wait :: "event list \<Rightarrow> 64 word \<Rightarrow> waited" where
  "race_wait [] numFallbacks = waiting"
| "race_wait (ctx_Done e # evs) numFallbacks = parent_done e"
| "race_wait (recv w # evs) numFallbacks =
     (if t w = remote \<or> t w = canceled then
        (case evs of
           [] \<Rightarrow> waiting
         | ctx_Done e # evs' \<Rightarrow> parent_done e
         | recv rr # evs' \<Rightarrow>
             winner (if t rr = local then rr else w)
                    (if t w = canceled \<and> t rr = local then numFallbacks + 1 else numFallbacks)
                    (t w \<noteq> canceled))
      else winner w numFallbacks (t w \<noteq> canceled))"

text \<open>What a call of \<open>race\<close> comes to.\<close>

datatype race_outcome =
    Blocked
  | Panicked panic
  | Returned action "64 word" "string \<rightharpoonup> Time"

text \<open>
  The end of \<open>race\<close>, from \<open>from := time.Now()\<close> on, for the winner \<open>w\<close>.
\<close>

definition race_finalize ::
  "host \<Rightarrow> logger \<Rightarrow> rexec \<Rightarrow> os_env \<Rightarrow> race_env \<Rightarrow> (string \<rightharpoonup> filemetadata_Metadata)
     \<Rightarrow> raceResult \<Rightarrow> 64 word \<Rightarrow> action \<times> (string \<rightharpoonup> Time) \<Rightarrow> race_outcome" where
  "race_finalize h lg sdk os env preExecOuts w numFallbacks st =
     (case st of (a, mtimes) \<Rightarrow>
        (let finish = (\<lambda>(a', mtimes').
               (let a1 = (if t w = canceled \<and> raceResult.res w \<noteq> None
                          then a'\<lparr>res := raceResult.res w\<rparr> else a')
                in case rec a1 of
                     None \<Rightarrow> Panicked nil_pointer_dereference
                   | Some r \<Rightarrow>
                       Returned
                         (a1\<lparr>rec := Some (RecordEventTime lg ''RacingFinalizationOverhead'' r),
                             oe := raceResult.oe w\<rparr>)
                         numFallbacks mtimes'))
         in if t w = remote then
              (case moveOutputsFromTemp env mtimes of
                 Inl e \<Rightarrow> Returned (a\<lparr>res := Some (NewLocalErrorResult e)\<rparr>) numFallbacks mtimes
               | Inr moved \<Rightarrow>
                   (case (if PreserveUnchangedOutputMtime (rOpt a)
                          then restoreUnchangedOutputMtimes h sdk os preExecOuts (a, moved)
                          else Inr (None, a, moved)) of
                      Inl p \<Rightarrow> Panicked p
                    | Inr (e, a', mtimes') \<Rightarrow>
                        (case execContext a' of
                           None \<Rightarrow> Panicked nil_pointer_dereference
                         | Some ec \<Rightarrow>
                             (case rec a' of
                                None \<Rightarrow> Panicked nil_pointer_dereference
                              | Some r \<Rightarrow>
                                  finish
                                    (a'\<lparr>rec := Some (r\<lparr>RemoteMetadata :=
                                           Some ((CommandRemoteMetadataToProto lg (Metadata ec))
                                                   \<lparr>RemoteMetadata.Result := raceResult.res w\<rparr>)\<rparr>),
                                        res := raceResult.res w\<rparr>,
                                     mtimes')))))
            else finish (a, mtimes)))"

text \<open>
  The two attempts run in goroutines of their own and write to the action they share
  with the coordinator. A step of a race is something one of the coordinator's \<open>select\<close>
  statements takes, with what made it: the goroutine of the remote attempt sends what
  \<open>runRemoteRace\<close> returns; the goroutine of the local attempt sends what \<open>runLocalRace\<close>
  returns (\<open>lCh\<close> was closed, and \<open>pool.Run\<close> returned as given) or, its own \<open>select\<close>
  having taken \<open>cCtx.Done()\<close>, sends \<open>raceResult{t: canceled}\<close>; or the parent scope ends,
  with \<open>ctx.Err()\<close>.
\<close>

datatype step =
    remote_sends remote_race_env
  | local_sends pool_Run
  | local_gives_up
  | parent_ends goerror

text \<open>
  A step as the coordinator meets it: the action with what the attempt wrote to it
  before it sent its result, and the event the \<open>select\<close> takes. The remote attempt
  downloads to the directory \<open>createTmpDir\<close> made,
  \<open>filepath.Join(a.racingTmp, a.cmd.Identifiers.ExecutionID)\<close>. A panic in a goroutine
  ends the program.
\<close>

fun attempt ::
  "host \<Rightarrow> logger \<Rightarrow> (real \<Rightarrow> real) \<Rightarrow> rexec \<Rightarrow> int \<Rightarrow> step \<Rightarrow> action
     \<Rightarrow> panic + action \<times> event" where
  "attempt h lg rnd sdk maxHoldoff (remote_sends renv) a =
     (case runRemoteRace rnd sdk renv (Join h [racingTmp a, ExecutionID (cmd a)]) maxHoldoff a of
        Inl p \<Rightarrow> Inl p
      | Inr (a', rr, sl) \<Rightarrow> Inr (a', recv rr))"
| "attempt h lg rnd sdk maxHoldoff (local_sends run) a =
     (case runLocalRace lg run a of
        Inl p \<Rightarrow> Inl p
      | Inr (a', rr) \<Rightarrow> Inr (a', recv rr))"
| "attempt h lg rnd sdk maxHoldoff local_gives_up a =
     Inr (a, recv \<lparr>raceResult.res = None, oe = None, t = canceled\<rparr>)"
| "attempt h lg rnd sdk maxHoldoff (parent_ends e) a = Inr (a, ctx_Done e)"

text \<open>
  The two \<open>select\<close> statements of \<open>race\<close> on the steps of a race: \<open>race_wait\<close> on the events
  of the steps the coordinator gets to, and the action as the attempts behind those
  steps left it. The second step is met only when the first leaves the coordinator
  waiting. What an attempt writes whose result the coordinator does not take is not in
  the action: such a write is not ordered with the coordinator's return.
\<close>

definition race_selects ::
  "host \<Rightarrow> logger \<Rightarrow> (real \<Rightarrow> real) \<Rightarrow> rexec \<Rightarrow> int \<Rightarrow> step list \<Rightarrow> 64 word \<Rightarrow> action
     \<Rightarrow> panic + waited \<times> action" where
  "race_selects h lg rnd sdk maxHoldoff steps numFallbacks a =
     (case steps of
        [] \<Rightarrow> Inr (waiting, a)
      | s1 # steps' \<Rightarrow>
          (case attempt h lg rnd sdk maxHoldoff s1 a of
             Inl p \<Rightarrow> Inl p
           | Inr (a1, e1) \<Rightarrow>
               (case race_wait [e1] numFallbacks of
                  waiting \<Rightarrow>
                    (case steps' of
                       [] \<Rightarrow> Inr (waiting, a1)
                     | s2 # steps'' \<Rightarrow>
                         (case attempt h lg rnd sdk maxHoldoff s2 a1 of
                            Inl p \<Rightarrow> Inl p
                          | Inr (a2, e2) \<Rightarrow> Inr (race_wait [e1, e2] numFallbacks, a2)))
                | w \<Rightarrow> Inr (w, a1))))"

text \<open>
  \<open>race\<close>. The test-only hooks (context values that are nil outside tests) are left out.
\<close>

definition race ::
  "host \<Rightarrow> logger \<Rightarrow> (real \<Rightarrow> real) \<Rightarrow> rexec \<Rightarrow> os_env \<Rightarrow> race_env \<Rightarrow> step list \<Rightarrow> 64 word
     \<Rightarrow> int \<Rightarrow> action \<times> (string \<rightharpoonup> Time) \<Rightarrow> race_outcome" where
  "race h lg rnd sdk os env steps numFallbacks maxHoldoff st =
     (case st of (a, mtimes) \<Rightarrow>
        (let preExecOuts = (if PreserveUnchangedOutputMtime (rOpt a) then getPreExecOutsInfo env
                            else Map.empty)
         in case createTmpDir_err env of
              Some e \<Rightarrow> Returned (a\<lparr>res := Some (NewLocalErrorResult e)\<rparr>) numFallbacks mtimes
            | None \<Rightarrow>
                (case race_selects h lg rnd sdk maxHoldoff steps numFallbacks a of
                   Inl p \<Rightarrow> Panicked p
                 | Inr (waiting, a') \<Rightarrow> Blocked
                 | Inr (parent_done e, a') \<Rightarrow>
                     Returned (a'\<lparr>res := Some (NewLocalErrorResult e)\<rparr>) numFallbacks mtimes
                 | Inr (winner w numFallbacks' cancelled, a') \<Rightarrow>
                     race_finalize h lg sdk os env preExecOuts w numFallbacks' (a', mtimes))))"

text \<open>
  The path the specification describes for a working directory of \<open>n\<close> segments: the
  segment \<open>set_by_reclient\<close>, then \<open>n - 1\<close> segments \<open>a\<close>, each after one separator of the
  host.
\<close>

definition remote_dir_of_depth :: "goos \<Rightarrow> nat \<Rightarrow> string" where
  "remote_dir_of_depth os n = ''set_by_reclient'' @ concat (replicate (n - 1) (Separator os # ''a''))"

text \<open>
  A path element that \<open>filepath.Clean\<close> copies as it is: not empty, neither \<open>.\<close> nor
  \<open>..\<close>, and free of separators.
\<close>

definition plain :: "goos \<Rightarrow> string \<Rightarrow> bool" where
  "plain os e = (e \<noteq> [] \<and> e \<noteq> ''.'' \<and> e \<noteq> ''..'' \<and> list_all (\<lambda>c. \<not> IsPathSeparator os c) e)"


text \<open>
  The segment depth in the specification's words, to compare \<open>depth\<close> with: ``1 + (count
  of path separators in the cleaned path)'', the slash and the backslash both counting as
  separators, and 0 for the empty path, on every host.
\<close>

definition spec_depth :: "string \<Rightarrow> nat" where
  "spec_depth path =
     (if path = [] then 0
      else 1 + length (filter (\<lambda>c. c = CHR ''/'' \<or> c = CHR 0x5C) path))"

section \<open>Duplication\<close>

text \<open>
  \<open>duplicate\<close> is about which objects are shared, so here the action lies in memory: a
  heap of cells, each holding one object, and a pointer is the address of a cell (nil is
  \<open>None\<close>). An allocation takes the next free address. A struct holds its scalar fields as
  values and its slices, maps and pointers as references: a slice is a header (the
  address of its backing array, nil for a nil slice, with the length and the capacity), a
  map or a pointer is an address. Copying a struct by value, as \<open>tcmd\<close> is copied from
  \<open>*a.cmd\<close>, copies headers and addresses, and so shares what they refer to.
\<close>

type_synonym addr = nat

record slice =
  array :: "addr option"
  len :: nat
  cap :: nat

text \<open>
  \<open>command.Command\<close> with the fields the sources use: \<open>Identifiers\<close> and \<open>InputSpec\<close> are
  pointers, \<open>Args\<close>, \<open>OutputFiles\<close> and \<open>OutputDirs\<close> are slices of strings.
\<close>

record Command_struct =
  cmd_Identifiers :: "addr option"
  cmd_Args :: slice
  cmd_ExecRoot :: string
  cmd_WorkingDir :: string
  cmd_RemoteWorkingDir :: string
  cmd_InputSpec :: "addr option"
  cmd_OutputFiles :: slice
  cmd_OutputDirs :: slice

text \<open>
  Modelled from the spec: \<open>Forecast\<close> and the two option messages are declared outside
  the sources. The specification says that they ``are copied \<^emph>\<open>by value\<close>, which implies
  shallow sharing of their inner slice-backed fields'': each is its scalar fields, as one
  value, together with the references it holds. \<open>Forecast\<close> and the local execution
  options are opaque, 0 the zero value.
\<close>

datatype Forecast = Forecast nat

datatype LocalExecutionOptions = LocalExecutionOptions nat

type_synonym 'a struct = "'a \<times> addr list"

text \<open>
  The objects. The \<open>action\<close> struct is its six pointer fields that \<open>duplicate\<close> replaces
  (\<open>cmd\<close>, \<open>forecast\<close>, \<open>rec\<close>, \<open>rOpt\<close>, \<open>lOpt\<close>, and the sink \<open>oe\<close>) and, as one value, every other
  field, which the assignment \<open>*newAction = *a\<close> copies as it is (for a map, slice or
  pointer among them, the reference). Of the log record, the \<open>LocalMetadata\<close> message is
  its three map fields.
\<close>

datatype 'v object =
    StringArray_obj "string list"
  | Identifiers_obj string
  | InputSpec_obj slice
  | Command_obj Command_struct
  | Forecast_obj "Forecast struct"
  | RemoteExecutionOptions_obj "RemoteExecutionOptions struct"
  | LocalExecutionOptions_obj "LocalExecutionOptions struct"
  | OutErr_obj OutErr
  | StringMap_obj "string \<rightharpoonup> string"
  | EventTimes_obj "string \<rightharpoonup> Time \<times> Time"
  | LocalMetadata_obj (EventTimes_ref: "addr option") (Environment_ref: "addr option")
      (Labels_ref: "addr option")
  | LogRecord_obj (LocalMetadata_ptr: "addr option") (RemoteMetadata_ptr: "addr option")
  | action_obj (cmd_ptr: "addr option") (forecast_ptr: "addr option") (rec_ptr: "addr option")
      (rOpt_ptr: "addr option") (lOpt_ptr: "addr option") (oe_ptr: "addr option")
      (other_fields: 'v)

record 'v heap =
  cells :: "addr \<rightharpoonup> 'v object"
  next_addr :: addr

datatype fault = go_panic panic | ill_formed_heap

definition new :: "'v object \<Rightarrow> 'v heap \<Rightarrow> addr \<times> 'v heap" where
  "new x h = (next_addr h, h\<lparr>cells := (cells h)(next_addr h \<mapsto> x), next_addr := next_addr h + 1\<rparr>)"

definition store :: "addr \<Rightarrow> 'v object \<Rightarrow> 'v heap \<Rightarrow> 'v heap" where
  "store p x h = h\<lparr>cells := (cells h)(p \<mapsto> x)\<rparr>"

text \<open>
  The zero values of \<open>var tcmd command.Command\<close> and its like, and the value a struct
  copy from \<open>*p\<close> reads: the struct in the cell \<open>p\<close> points to, with the references it
  holds; the zero value when \<open>p\<close> is nil (then the source skips the copy).
\<close>

definition zero_slice :: slice where
  "zero_slice = \<lparr>array = None, len = 0, cap = 0\<rparr>"

definition zero_Command :: Command_struct where
  "zero_Command =
     \<lparr>cmd_Identifiers = None, cmd_Args = zero_slice, cmd_ExecRoot = [], cmd_WorkingDir = [],
      cmd_RemoteWorkingDir = [], cmd_InputSpec = None, cmd_OutputFiles = zero_slice,
      cmd_OutputDirs = zero_slice\<rparr>"

definition zero_RemoteExecutionOptions :: RemoteExecutionOptions where
  "zero_RemoteExecutionOptions =
     \<lparr>Wrapper = [], DownloadOutputs = False, PreserveUnchangedOutputMtime = False\<rparr>"

definition copy_Command :: "'v heap \<Rightarrow> addr option \<Rightarrow> Command_struct option" where
  "copy_Command h p =
     (case p of
        None \<Rightarrow> Some zero_Command
      | Some q \<Rightarrow> (case cells h q of Some (Command_obj c) \<Rightarrow> Some c | _ \<Rightarrow> None))"

definition copy_Forecast :: "'v heap \<Rightarrow> addr option \<Rightarrow> Forecast struct option" where
  "copy_Forecast h p =
     (case p of
        None \<Rightarrow> Some (Forecast 0, [])
      | Some q \<Rightarrow> (case cells h q of Some (Forecast_obj f) \<Rightarrow> Some f | _ \<Rightarrow> None))"

definition copy_RemoteExecutionOptions ::
  "'v heap \<Rightarrow> addr option \<Rightarrow> RemoteExecutionOptions struct option" where
  "copy_RemoteExecutionOptions h p =
     (case p of
        None \<Rightarrow> Some (zero_RemoteExecutionOptions, [])
      | Some q \<Rightarrow> (case cells h q of Some (RemoteExecutionOptions_obj x) \<Rightarrow> Some x | _ \<Rightarrow> None))"

definition copy_LocalExecutionOptions ::
  "'v heap \<Rightarrow> addr option \<Rightarrow> LocalExecutionOptions struct option" where
  "copy_LocalExecutionOptions h p =
     (case p of
        None \<Rightarrow> Some (LocalExecutionOptions 0, [])
      | Some q \<Rightarrow> (case cells h q of Some (LocalExecutionOptions_obj x) \<Rightarrow> Some x | _ \<Rightarrow> None))"

text \<open>
  The log record of a duplicate: \<open>trec\<close> is the fresh record of \<open>logger.NewLogRecord()\<close>;
  when the source has a log record, \<open>trec\<close> gets a new \<open>LocalMetadata\<close> message with a new
  \<open>EventTimes\<close> map and with the \<open>Environment\<close> and \<open>Labels\<close> fields of the source's
  message, which are maps. \<open>a.rec.LocalMetadata.Environment\<close> on a nil \<open>LocalMetadata\<close>
  panics.
\<close>

definition new_LocalMetadata :: "Time \<Rightarrow> addr option \<Rightarrow> addr \<Rightarrow> 'v heap \<Rightarrow> fault + 'v heap" where
  "new_LocalMetadata now rec_p trec h =
     (case rec_p of
        None \<Rightarrow> Inr h
      | Some r \<Rightarrow>
          (case cells h r of
             Some (LogRecord_obj None rm) \<Rightarrow> Inl (go_panic nil_pointer_dereference)
           | Some (LogRecord_obj (Some l) rm) \<Rightarrow>
               (case cells h l of
                  Some (LocalMetadata_obj et env lbl) \<Rightarrow>
                    (case new (EventTimes_obj [''ProxyExecution'' \<mapsto> (now, 0)]) h of
                       (pe, h1) \<Rightarrow>
                         (case new (LocalMetadata_obj (Some pe) env lbl) h1 of
                            (pl, h2) \<Rightarrow> Inr (store trec (LogRecord_obj (Some pl) None) h2)))
                | _ \<Rightarrow> Inl ill_formed_heap)
           | _ \<Rightarrow> Inl ill_formed_heap))"

definition duplicate_one :: "Time \<Rightarrow> addr \<Rightarrow> 'v heap \<Rightarrow> fault + addr \<times> 'v heap" where
  "duplicate_one now a h =
     (case cells h a of
        Some (action_obj c f r ro lo sink v) \<Rightarrow>
          (case (copy_Command h c, copy_Forecast h f,
                 copy_RemoteExecutionOptions h ro, copy_LocalExecutionOptions h lo) of
             (Some tcmd, Some tforecast, Some trOpt, Some tlOpt) \<Rightarrow>
               (case new (Command_obj tcmd) h of (pc, h1) \<Rightarrow>
                (case new (Forecast_obj tforecast) h1 of (pf, h2) \<Rightarrow>
                 (case new (LogRecord_obj None None) h2 of (trec, h3) \<Rightarrow>
                  (case new_LocalMetadata now r trec h3 of
                     Inl e \<Rightarrow> Inl e
                   | Inr h4 \<Rightarrow>
                       (case new (RemoteExecutionOptions_obj trOpt) h4 of (pro, h5) \<Rightarrow>
                        (case new (LocalExecutionOptions_obj tlOpt) h5 of (plo, h6) \<Rightarrow>
                         (case new (action_obj c f r ro lo sink v) h6 of (newAction, h7) \<Rightarrow>
                          (case new (OutErr_obj \<lparr>Stdout = [], Stderr = []\<rparr>) h7 of (po, h8) \<Rightarrow>
                             Inr (newAction,
                                  store newAction
                                    (action_obj (Some pc) (Some pf) (Some trec) (Some pro)
                                       (Some plo) (Some po) v) h8)))))))))
           | _ \<Rightarrow> Inl ill_formed_heap)
      | _ \<Rightarrow> Inl ill_formed_heap)"

fun duplicate_loop ::
  "(nat \<Rightarrow> Time) \<Rightarrow> addr \<Rightarrow> nat \<Rightarrow> nat \<Rightarrow> addr list \<Rightarrow> 'v heap \<Rightarrow> fault + addr list \<times> 'v heap" where
  "duplicate_loop now a i 0 acc h = Inr (acc, h)"
| "duplicate_loop now a i (Suc k) acc h =
     (case duplicate_one (now i) a h of
        Inl e \<Rightarrow> Inl e
      | Inr (newAction, h') \<Rightarrow> duplicate_loop now a (Suc i) k (acc @ [newAction]) h')"

definition duplicate :: "(nat \<Rightarrow> Time) \<Rightarrow> addr option \<Rightarrow> int \<Rightarrow> 'v heap \<Rightarrow> fault + addr list \<times> 'v heap" where
  "duplicate now a n h =
     (case a of
        None \<Rightarrow> Inr ([], h)
      | Some p \<Rightarrow> duplicate_loop now p 0 (nat n) [] h)"

text \<open>Reading a field of the object in a cell; nil when the cell holds something else.\<close>

fun is_action :: "'v object option \<Rightarrow> bool" where
  "is_action (Some (action_obj c f r ro lo sink v)) = True"
| "is_action x = False"

fun pointers_of :: "'v object option \<Rightarrow> addr list" where
  "pointers_of (Some (action_obj c f r ro lo sink v)) = List.map_filter id [c, f, r, ro, lo, sink]"
| "pointers_of x = []"

fun rec_of :: "'v object option \<Rightarrow> addr option" where
  "rec_of (Some (action_obj c f r ro lo sink v)) = r"
| "rec_of x = None"

fun oe_of :: "'v object option \<Rightarrow> addr option" where
  "oe_of (Some (action_obj c f r ro lo sink v)) = sink"
| "oe_of x = None"

fun LocalMetadata_of :: "'v object option \<Rightarrow> addr option" where
  "LocalMetadata_of (Some (LogRecord_obj l rm)) = l"
| "LocalMetadata_of x = None"

fun EventTimes_of :: "'v object option \<Rightarrow> addr option" where
  "EventTimes_of (Some (LocalMetadata_obj et env lbl)) = et"
| "EventTimes_of x = None"

fun Environment_of :: "'v object option \<Rightarrow> addr option" where
  "Environment_of (Some (LocalMetadata_obj et env lbl)) = env"
| "Environment_of x = None"

fun Labels_of :: "'v object option \<Rightarrow> addr option" where
  "Labels_of (Some (LocalMetadata_obj et env lbl)) = lbl"
| "Labels_of x = None"

fun is_LocalMetadata :: "'v object option \<Rightarrow> bool" where
  "is_LocalMetadata (Some (LocalMetadata_obj et env lbl)) = True"
| "is_LocalMetadata x = False"

text \<open>
  The objects a duplicate has for itself: its struct, the objects its six pointers
  refer to, and, of its log record, the \<open>LocalMetadata\<close> message and the \<open>EventTimes\<close>
  map. The \<open>Environment\<close> and \<open>Labels\<close> maps are not among them, nor is anything its
  command, forecast or option messages hold by reference.
\<close>

definition owned :: "'v heap \<Rightarrow> addr \<Rightarrow> addr list" where
  "owned h d =
     (if is_action (cells h d) then
        d # pointers_of (cells h d)
          @ (case rec_of (cells h d) of
               None \<Rightarrow> []
             | Some r \<Rightarrow>
                 (case LocalMetadata_of (cells h r) of
                    None \<Rightarrow> []
                  | Some l \<Rightarrow>
                      l # (case EventTimes_of (cells h l) of None \<Rightarrow> [] | Some et \<Rightarrow> [et])))
      else [])"

text \<open>The address of the map \<open>d.rec.LocalMetadata.Environment\<close>, and of \<open>Labels\<close>.\<close>

definition Environment_addr :: "'v heap \<Rightarrow> addr \<Rightarrow> addr option" where
  "Environment_addr h d =
     (case rec_of (cells h d) of
        None \<Rightarrow> None
      | Some r \<Rightarrow>
          (case LocalMetadata_of (cells h r) of
             None \<Rightarrow> None
           | Some l \<Rightarrow> Environment_of (cells h l)))"

definition Labels_addr :: "'v heap \<Rightarrow> addr \<Rightarrow> addr option" where
  "Labels_addr h d =
     (case rec_of (cells h d) of
        None \<Rightarrow> None
      | Some r \<Rightarrow>
          (case LocalMetadata_of (cells h r) of
             None \<Rightarrow> None
           | Some l \<Rightarrow> Labels_of (cells h l)))"

text \<open>Reading the map: \<open>d.rec.LocalMetadata.Environment[k]\<close>.\<close>

fun lookup_StringMap :: "'v object option \<Rightarrow> string \<Rightarrow> string option" where
  "lookup_StringMap (Some (StringMap_obj m)) k = m k"
| "lookup_StringMap x k = None"

definition get_Environment :: "addr \<Rightarrow> string \<Rightarrow> 'v heap \<Rightarrow> string option" where
  "get_Environment d k h =
     (case Environment_addr h d of None \<Rightarrow> None | Some m \<Rightarrow> lookup_StringMap (cells h m) k)"

text \<open>Writing it: \<open>d.rec.LocalMetadata.Environment[k] = v\<close> (a nil map would panic).\<close>

fun insert_StringMap :: "'v object option \<Rightarrow> string \<Rightarrow> string \<Rightarrow> 'v object option" where
  "insert_StringMap (Some (StringMap_obj m)) k v = Some (StringMap_obj (m(k \<mapsto> v)))"
| "insert_StringMap x k v = x"

definition set_Environment :: "addr \<Rightarrow> string \<Rightarrow> string \<Rightarrow> 'v heap \<Rightarrow> 'v heap" where
  "set_Environment d k v h =
     (case Environment_addr h d of
        None \<Rightarrow> h
      | Some m \<Rightarrow> h\<lparr>cells := (cells h)(m := insert_StringMap (cells h m) k v)\<rparr>)"

text \<open>
  The values an action holds: its command, forecast and options as \<open>duplicate\<close> would
  copy them (each with the references it holds), and the fields copied with the struct.
\<close>

fun values_in :: "'v heap \<Rightarrow> 'v object option
    \<Rightarrow> (Command_struct option \<times> Forecast struct option \<times> RemoteExecutionOptions struct option
          \<times> LocalExecutionOptions struct option \<times> 'v) option" where
  "values_in h (Some (action_obj c f r ro lo sink v)) =
     Some (copy_Command h c, copy_Forecast h f, copy_RemoteExecutionOptions h ro,
           copy_LocalExecutionOptions h lo, v)"
| "values_in h x = None"

definition values_of :: "'v heap \<Rightarrow> addr
    \<Rightarrow> (Command_struct option \<times> Forecast struct option \<times> RemoteExecutionOptions struct option
          \<times> LocalExecutionOptions struct option \<times> 'v) option" where
  "values_of h d = values_in h (cells h d)"

text \<open>The object an action's output sink \<open>oe\<close> refers to.\<close>

definition sink_of :: "'v heap \<Rightarrow> addr \<Rightarrow> 'v object option" where
  "sink_of h d = (case oe_of (cells h d) of None \<Rightarrow> None | Some s \<Rightarrow> cells h s)"

text \<open>
  The storage an action refers to through its command, forecast, options and log record
  without its being one of the objects above: what the command's pointers and slice
  headers refer to, what the forecast and the option messages hold, and the
  \<open>Environment\<close> and \<open>Labels\<close> maps.
\<close>

definition Command_refs :: "Command_struct \<Rightarrow> addr list" where
  "Command_refs c =
     List.map_filter id
       [cmd_Identifiers c, array (cmd_Args c), cmd_InputSpec c, array (cmd_OutputFiles c),
        array (cmd_OutputDirs c)]"

definition held :: "'v heap \<Rightarrow> addr \<Rightarrow> addr list" where
  "held h d =
     (case values_of h d of
        Some (Some c, Some f, Some ro, Some lo, v) \<Rightarrow> Command_refs c @ snd f @ snd ro @ snd lo
      | _ \<Rightarrow> [])
     @ List.map_filter id [Environment_addr h d, Labels_addr h d]"

text \<open>
  Reading and writing through an action's command: the element \<open>d.cmd.Args[i]\<close>, which
  lies in the backing array of the slice (nothing is read or written when a pointer is
  nil or the index is out of range, where Go panics), and the field \<open>d.cmd.ExecRoot\<close>,
  which lies in the struct.
\<close>

fun cmd_of :: "'v object option \<Rightarrow> addr option" where
  "cmd_of (Some (action_obj c f r ro lo sink v)) = c"
| "cmd_of x = None"

fun Command_in :: "'v object option \<Rightarrow> Command_struct option" where
  "Command_in (Some (Command_obj c)) = Some c"
| "Command_in x = None"

fun strings_in :: "'v object option \<Rightarrow> string list option" where
  "strings_in (Some (StringArray_obj xs)) = Some xs"
| "strings_in x = None"

definition Command_of :: "'v heap \<Rightarrow> addr \<Rightarrow> (addr \<times> Command_struct) option" where
  "Command_of h d =
     (case cmd_of (cells h d) of
        None \<Rightarrow> None
      | Some p \<Rightarrow> (case Command_in (cells h p) of None \<Rightarrow> None | Some c \<Rightarrow> Some (p, c)))"

definition Args_array :: "'v heap \<Rightarrow> addr \<Rightarrow> nat \<Rightarrow> (addr \<times> string list) option" where
  "Args_array h d i =
     (case Command_of h d of
        None \<Rightarrow> None
      | Some (p, c) \<Rightarrow>
          if i < len (cmd_Args c) then
            (case array (cmd_Args c) of
               None \<Rightarrow> None
             | Some arr \<Rightarrow>
                 (case strings_in (cells h arr) of
                    None \<Rightarrow> None
                  | Some xs \<Rightarrow> if i < length xs then Some (arr, xs) else None))
          else None)"

definition get_Args :: "addr \<Rightarrow> nat \<Rightarrow> 'v heap \<Rightarrow> string option" where
  "get_Args d i h = (case Args_array h d i of None \<Rightarrow> None | Some (arr, xs) \<Rightarrow> Some (xs ! i))"

definition set_Args :: "addr \<Rightarrow> nat \<Rightarrow> string \<Rightarrow> 'v heap \<Rightarrow> 'v heap" where
  "set_Args d i x h =
     (case Args_array h d i of
        None \<Rightarrow> h
      | Some (arr, xs) \<Rightarrow> store arr (StringArray_obj (xs[i := x])) h)"

definition get_ExecRoot :: "addr \<Rightarrow> 'v heap \<Rightarrow> string option" where
  "get_ExecRoot d h = (case Command_of h d of None \<Rightarrow> None | Some (p, c) \<Rightarrow> Some (cmd_ExecRoot c))"

definition set_ExecRoot :: "addr \<Rightarrow> string \<Rightarrow> 'v heap \<Rightarrow> 'v heap" where
  "set_ExecRoot d x h =
     (case Command_of h d of
        None \<Rightarrow> h
      | Some (p, c) \<Rightarrow> store p (Command_obj (c\<lparr>cmd_ExecRoot := x\<rparr>)) h)"

text \<open>
  A heap whose cells all lie below the allocation pointer, and a source action
  \<open>duplicate\<close> can copy: an \<open>action\<close> struct whose pointers are nil or refer to objects of
  their types, and whose log record, if it has one, has a \<open>LocalMetadata\<close> message.
\<close>

definition heap_ok :: "'v heap \<Rightarrow> bool" where
  "heap_ok h = (\<forall>p. cells h p \<noteq> None \<longrightarrow> p < next_addr h)"

definition source_ok :: "'v heap \<Rightarrow> addr \<Rightarrow> bool" where
  "source_ok h a =
     (is_action (cells h a) \<and> values_of h a \<noteq> None
      \<and> (case values_of h a of
            Some (c, f, ro, lo, v) \<Rightarrow> c \<noteq> None \<and> f \<noteq> None \<and> ro \<noteq> None \<and> lo \<noteq> None
          | None \<Rightarrow> False)
      \<and> (case rec_of (cells h a) of
            None \<Rightarrow> True
          | Some r \<Rightarrow>
              (case LocalMetadata_of (cells h r) of
                 None \<Rightarrow> False
               | Some l \<Rightarrow> is_LocalMetadata (cells h l))))"

text \<open>
  How many objects \<open>duplicate\<close> allocates for one duplicate of the action at \<open>a\<close>: seven,
  and two more (the \<open>EventTimes\<close> map and the \<open>LocalMetadata\<close> message) when the action has
  a log record.
\<close>

definition block_size :: "'v heap \<Rightarrow> addr \<Rightarrow> nat" where
  "block_size h a = (case rec_of (cells h a) of None \<Rightarrow> 7 | Some r \<Rightarrow> 9)"

section \<open>Notions the theorems are stated with, and example values\<close>

text \<open>
  Deps-file verification succeeds for an action: no dependency file was stored, or the
  parser (the action's own, or the one \<open>createParser\<close> makes) verifies the stored file
  without error and without mismatch.
\<close>

definition deps_verified :: "deps \<Rightarrow> action \<Rightarrow> bool" where
  "deps_verified dp a =
     (dFile a = [] \<or>
      VerifyDepsFile dp
        (case parser a of Some p \<Rightarrow> p | None \<Rightarrow> \<lparr>parser_ExecRoot = ExecRoot (cmd a)\<rparr>)
        (dFile a) = (True, None))"

text \<open>
  Example values for the closed instances below: a logger that leaves event times
  alone, results, an action of two outputs with a stored dependency file, SDKs, the
  environment of a race, and what the pool and the remote attempt meet.
\<close>

definition example_logger :: logger where
  "example_logger =
     \<lparr>CommandRemoteMetadataToProto =
        (\<lambda>m. \<lparr>CacheHit = False, RemoteMetadata.Result = None,
               RemoteMetadata.ActionDigest = command_Metadata.ActionDigest m\<rparr>),
      RecordEventTime = (\<lambda>ev r. r),
      CopyEventTimesFrom = (\<lambda>src r. r)\<rparr>"

definition remote_failure :: Result where
  "remote_failure = \<lparr>ExitCode = 45, Err = Some (errorString ''unavailable''),
                      Status = RemoteErrorResultStatus\<rparr>"

definition cache_hit :: Result where
  "cache_hit = \<lparr>ExitCode = 0, Err = None, Status = CacheHitResultStatus\<rparr>"

definition example_Context :: Context where
  "example_Context = \<lparr>Context.Result = None, Metadata = \<lparr>command_Metadata.ActionDigest = ''ad''\<rparr>\<rparr>"

definition example_action :: action where
  "example_action =
     \<lparr>cmd = \<lparr>ExecutionID = ''id1'', Args = [''clang'', ''-c'', ''a.c''], ExecRoot = ''/w'',
             WorkingDir = ''out'', OutputFiles = [''a.o'', ''b.o''], OutputDirs = []\<rparr>,
      fmc = (\<lambda>p. \<lparr>Digest = ([], 0), MTime = 0, IsDirectory = False,
                   filemetadata_Metadata.Err = None\<rparr>),
      oe = None,
      rec = Some \<lparr>LocalMetadata = Some empty_LocalMetadata, RemoteMetadata = None\<rparr>,
      rOpt = \<lparr>Wrapper = [], DownloadOutputs = True, PreserveUnchangedOutputMtime = True\<rparr>,
      racingBias = 1/2,
      racingTmp = ''/tmp/racing'',
      execContext = Some example_Context,
      parser = None,
      dFile = ''a.d'',
      depsFile = ''a.d.deps'',
      res = None\<rparr>"

text \<open>An SDK whose every remote call fails, and one that finds a cached result.\<close>

definition failing_rexec :: rexec where
  "failing_rexec =
     \<lparr>NewContext = (\<lambda>c. Inr example_Context),
      GetCachedResult = (\<lambda>ec. ec),
      ExecuteRemotely = (\<lambda>ec. ec\<lparr>Context.Result := Some remote_failure\<rparr>),
      DownloadOutputs = (\<lambda>dir ec. ec\<lparr>Context.Result := Some remote_failure\<rparr>),
      GetOutputFileDigests = (\<lambda>ec. Inl (errorString ''no action result''))\<rparr>"

definition cached_rexec :: rexec where
  "cached_rexec =
     \<lparr>NewContext = (\<lambda>c. Inr example_Context),
      GetCachedResult = (\<lambda>ec. ec\<lparr>Context.Result := Some cache_hit\<rparr>),
      ExecuteRemotely = (\<lambda>ec. ec\<lparr>Context.Result := Some cache_hit\<rparr>),
      DownloadOutputs = (\<lambda>dir ec. ec),
      GetOutputFileDigests = (\<lambda>ec. Inr [(''a.o'', (''ha'', 1)), (''b.o'', (''hb'', 2))])\<rparr>"

definition example_race_env :: race_env where
  "example_race_env =
     \<lparr>getPreExecOutsInfo =
        [''a.o'' \<mapsto> \<lparr>Digest = (''ha'', 1), MTime = 100, IsDirectory = False,
                        filemetadata_Metadata.Err = None\<rparr>,
         ''b.o'' \<mapsto> \<lparr>Digest = (''hb'', 2), MTime = 200, IsDirectory = False,
                        filemetadata_Metadata.Err = None\<rparr>],
      createTmpDir_err = None,
      moveOutputsFromTemp = (\<lambda>m. Inr (m(''/w/out/a.o'' \<mapsto> 999, ''/w/out/b.o'' \<mapsto> 999)))\<rparr>"

definition example_os_env :: os_env where
  "example_os_env = \<lparr>Chtimes_err = (\<lambda>p. None), fmc_Update_err = (\<lambda>p. None)\<rparr>"

definition mismatching_deps :: deps where
  "mismatching_deps = \<lparr>VerifyDepsFile = (\<lambda>p f. (False, None))\<rparr>"

definition failing_pool_Run :: pool_Run where
  "failing_pool_Run =
     \<lparr>exitCode = 0, err = Some (errorString ''fork/exec: resource temporarily unavailable''),
      lOE = \<lparr>Stdout = [], Stderr = []\<rparr>,
      lr = \<lparr>LocalMetadata = None, RemoteMetadata = None\<rparr>\<rparr>"

definition successful_pool_Run :: pool_Run where
  "successful_pool_Run =
     \<lparr>exitCode = 0, err = None, lOE = \<lparr>Stdout = ''ok'', Stderr = []\<rparr>,
      lr = \<lparr>LocalMetadata = None, RemoteMetadata = None\<rparr>\<rparr>"

definition remote_env_cache_hit :: remote_race_env where
  "remote_env_cache_hit =
     \<lparr>cCtx_done_after_execute = False, cCtx_done_after_download = False,
      PercentileDownloadLatency = Inr 100000000,
      rOE = \<lparr>Stdout = [], Stderr = []\<rparr>\<rparr>"

definition remote_env_sibling_done :: remote_race_env where
  "remote_env_sibling_done =
     \<lparr>cCtx_done_after_execute = True, cCtx_done_after_download = True,
      PercentileDownloadLatency = Inr 100000000,
      rOE = \<lparr>Stdout = [], Stderr = ''remote failed''\<rparr>\<rparr>"

definition remote_env_racing :: remote_race_env where
  "remote_env_racing =
     \<lparr>cCtx_done_after_execute = False, cCtx_done_after_download = False,
      PercentileDownloadLatency = Inr 100000000,
      rOE = \<lparr>Stdout = [], Stderr = ''remote failed''\<rparr>\<rparr>"


text \<open>The path of an output, as \<open>restoreUnchangedOutputMtimes\<close> joins it.\<close>

definition output_path :: "host \<Rightarrow> Command \<Rightarrow> string \<Rightarrow> string" where
  "output_path h c out = Join h [ExecRoot c, WorkingDir c, out]"

text \<open>
  The cells of one duplicate, as \<open>duplicate\<close> lays them out from the address \<open>b\<close> on; \<open>ri\<close>
  is nil when the source has no log record, and else the \<open>Environment\<close> and \<open>Labels\<close> maps
  of the source's log record.
\<close>

definition dup_at ::
  "'v heap \<Rightarrow> Command_struct \<Rightarrow> Forecast struct \<Rightarrow> RemoteExecutionOptions struct
     \<Rightarrow> LocalExecutionOptions struct \<Rightarrow> 'v
     \<Rightarrow> (addr option \<times> addr option) option \<Rightarrow> Time \<Rightarrow> addr \<Rightarrow> addr \<Rightarrow> bool" where
  "dup_at h tcmd tf tro tlo v ri now b d =
     (case ri of
        None \<Rightarrow>
          d = b + 5
          \<and> cells h b = Some (Command_obj tcmd)
          \<and> cells h (b + 1) = Some (Forecast_obj tf)
          \<and> cells h (b + 2) = Some (LogRecord_obj None None)
          \<and> cells h (b + 3) = Some (RemoteExecutionOptions_obj tro)
          \<and> cells h (b + 4) = Some (LocalExecutionOptions_obj tlo)
          \<and> cells h (b + 5) = Some (action_obj (Some b) (Some (b + 1)) (Some (b + 2)) (Some (b + 3))
                                      (Some (b + 4)) (Some (b + 6)) v)
          \<and> cells h (b + 6) = Some (OutErr_obj \<lparr>Stdout = [], Stderr = []\<rparr>)
      | Some (env, lbl) \<Rightarrow>
          d = b + 7
          \<and> cells h b = Some (Command_obj tcmd)
          \<and> cells h (b + 1) = Some (Forecast_obj tf)
          \<and> cells h (b + 2) = Some (LogRecord_obj (Some (b + 4)) None)
          \<and> cells h (b + 3) = Some (EventTimes_obj [''ProxyExecution'' \<mapsto> (now, 0)])
          \<and> cells h (b + 4) = Some (LocalMetadata_obj (Some (b + 3)) env lbl)
          \<and> cells h (b + 5) = Some (RemoteExecutionOptions_obj tro)
          \<and> cells h (b + 6) = Some (LocalExecutionOptions_obj tlo)
          \<and> cells h (b + 7) = Some (action_obj (Some b) (Some (b + 1)) (Some (b + 2)) (Some (b + 5))
                                      (Some (b + 6)) (Some (b + 8)) v)
          \<and> cells h (b + 8) = Some (OutErr_obj \<lparr>Stdout = [], Stderr = []\<rparr>))"

text \<open>What duplicate reads of the source action.\<close>

definition source_is ::
  "'v heap \<Rightarrow> addr \<Rightarrow> Command_struct \<Rightarrow> Forecast struct \<Rightarrow> RemoteExecutionOptions struct
     \<Rightarrow> LocalExecutionOptions struct \<Rightarrow> 'v
     \<Rightarrow> (addr option \<times> addr option) option \<Rightarrow> bool" where
  "source_is h a tcmd tf tro tlo v ri =
     (\<exists>c f r ro lo sink.
        cells h a = Some (action_obj c f r ro lo sink v)
        \<and> copy_Command h c = Some tcmd \<and> copy_Forecast h f = Some tf
        \<and> copy_RemoteExecutionOptions h ro = Some tro
        \<and> copy_LocalExecutionOptions h lo = Some tlo
        \<and> (case ri of
              None \<Rightarrow> r = None
            | Some (env, lbl) \<Rightarrow>
                (\<exists>ra l rm et. r = Some ra \<and> cells h ra = Some (LogRecord_obj (Some l) rm)
                    \<and> cells h l = Some (LocalMetadata_obj et env lbl))))"

text \<open>More example values: a failing \<open>os.Chtimes\<close>, outputs after the move, and a heap.\<close>

definition chtimes_fails_first :: os_env where
  "chtimes_fails_first =
     \<lparr>Chtimes_err = (\<lambda>p. if p = ''/w/out/a.o'' then Some (errorString ''operation not permitted'')
                          else None),
      fmc_Update_err = (\<lambda>p. None)\<rparr>"

definition moved_outputs :: "string \<rightharpoonup> Time" where
  "moved_outputs = [''/w/out/a.o'' \<mapsto> 999, ''/w/out/b.o'' \<mapsto> 999]"

definition example_heap :: "unit heap" where
  "example_heap =
     \<lparr>cells =
        [0 \<mapsto> StringArray_obj [''clang'', ''-c'', ''a.c''],
         1 \<mapsto> StringArray_obj [''a.o''],
         2 \<mapsto> Identifiers_obj ''id1'',
         3 \<mapsto> Command_obj
               \<lparr>cmd_Identifiers = Some 2, cmd_Args = \<lparr>array = Some 0, len = 3, cap = 3\<rparr>,
                cmd_ExecRoot = ''/w'', cmd_WorkingDir = ''out'', cmd_RemoteWorkingDir = [],
                cmd_InputSpec = None, cmd_OutputFiles = \<lparr>array = Some 1, len = 1, cap = 1\<rparr>,
                cmd_OutputDirs = zero_slice\<rparr>,
         4 \<mapsto> Forecast_obj (Forecast 1, []),
         5 \<mapsto> StringMap_obj [''PATH'' \<mapsto> ''/usr/bin''],
         6 \<mapsto> StringMap_obj [''type'' \<mapsto> ''compile''],
         7 \<mapsto> EventTimes_obj Map.empty,
         8 \<mapsto> LocalMetadata_obj (Some 7) (Some 5) (Some 6),
         9 \<mapsto> LogRecord_obj (Some 8) None,
         10 \<mapsto> RemoteExecutionOptions_obj
                (\<lparr>Wrapper = [], DownloadOutputs = True, PreserveUnchangedOutputMtime = False\<rparr>, []),
         11 \<mapsto> LocalExecutionOptions_obj (LocalExecutionOptions 1, []),
         12 \<mapsto> OutErr_obj \<lparr>Stdout = [], Stderr = []\<rparr>,
         13 \<mapsto> action_obj (Some 3) (Some 4) (Some 9) (Some 10) (Some 11) (Some 12) ()],
      next_addr = 14\<rparr>"

definition example_duplicates :: "fault + addr list \<times> unit heap" where
  "example_duplicates = duplicate (\<lambda>i. 1000 + int i) (Some 13) 2 example_heap"


section \<open>Properties of the path utilities\<close>

lemma depth_loop_count:
  "depth_loop os p d = d + length (filter (IsPathSeparator os) p)"
  by (induction p arbitrary: d) auto

lemma depth_count:
  "depth os p = (if p = [] then 0 else 1 + length (filter (IsPathSeparator os) p))"
  by (simp add: depth_def depth_loop_count)

lemma IsPathSeparator_Separator: "IsPathSeparator os (Separator os)"
  by (cases os) auto

lemma Clean_loop_plain:
  assumes "plain os e" and "at_end_or_sep os rest"
  shows "Clean_loop os rooted (e @ rest) out dd =
         Clean_loop os rooted rest
           ((if rooted \<and> length out \<noteq> 1 \<or> \<not> rooted \<and> length out \<noteq> 0
             then out @ [Separator os] else out) @ e) dd"
proof -
  from assms(1) obtain c cs where e: "e = c # cs"
    by (cases e) (auto simp: plain_def)
  from assms(1) e have nosep: "\<forall>x\<in>set cs. \<not> IsPathSeparator os x"
    and c1: "IsPathSeparator os c = False"
    by (auto simp: plain_def list_all_iff)
  have c2: "(c = CHR ''.'' \<and> at_end_or_sep os (cs @ rest)) = False"
  proof (cases cs)
    case Nil
    with assms(1) e show ?thesis by (auto simp: plain_def)
  next
    case (Cons a as)
    with nosep show ?thesis by auto
  qed
  have c3: "(c = CHR ''.'' \<and> cs @ rest \<noteq> [] \<and> hd (cs @ rest) = CHR ''.'' \<and>
             at_end_or_sep os (tl (cs @ rest))) = False"
  proof (cases cs)
    case Nil
    with assms(1) e show ?thesis by (auto simp: plain_def)
  next
    case (Cons a as)
    show ?thesis
    proof (cases as)
      case Nil
      with Cons assms(1) e show ?thesis by (auto simp: plain_def)
    next
      case (Cons b bs)
      with \<open>cs = a # as\<close> nosep show ?thesis by auto
    qed
  qed
  have tw: "takeWhile (\<lambda>x. \<not> IsPathSeparator os x) (cs @ rest) = cs"
    using nosep assms(2) by (cases rest) auto
  have dw: "dropWhile (\<lambda>x. \<not> IsPathSeparator os x) (cs @ rest) = rest"
    using nosep assms(2) by (cases rest) auto
  have "Clean_loop os rooted (c # (cs @ rest)) out dd =
        Clean_loop os rooted rest
          ((if rooted \<and> length out \<noteq> 1 \<or> \<not> rooted \<and> length out \<noteq> 0
            then out @ [Separator os] else out) @ c # cs) dd"
    by (simp only: Clean_loop.simps c1 c2 c3 if_False tw dw)
  then show ?thesis by (simp add: e)
qed

text \<open>A relative path of plain elements, one separator between two, is already clean.\<close>

lemma Clean_loop_join:
  assumes "list_all (plain os) es" "es \<noteq> []"
  shows "Clean_loop os False (strings_Join es [Separator os]) out dd =
         (if out = [] then [] else out @ [Separator os]) @ strings_Join es [Separator os]"
  using assms
proof (induction es "[Separator os]" arbitrary: out rule: strings_Join.induct)
  case 1
  then show ?case by simp
next
  case (2 e)
  then show ?case
    using Clean_loop_plain[of os e "[]" False out dd] by auto
next
  case (3 e v va)
  have "Clean_loop os False (e @ Separator os # strings_Join (v # va) [Separator os]) out dd
      = Clean_loop os False (Separator os # strings_Join (v # va) [Separator os])
          ((if out = [] then [] else out @ [Separator os]) @ e) dd"
    using Clean_loop_plain[of os e "Separator os # strings_Join (v # va) [Separator os]" False out dd] 3(2)
    by (auto simp: IsPathSeparator_Separator)
  also have "\<dots> = Clean_loop os False (strings_Join (v # va) [Separator os])
          ((if out = [] then [] else out @ [Separator os]) @ e) dd"
    by (simp add: IsPathSeparator_Separator)
  also have "\<dots> = ((if out = [] then [] else out @ [Separator os]) @ e) @ [Separator os]
                      @ strings_Join (v # va) [Separator os]"
    using 3 by (auto simp: plain_def)
  finally show ?case by simp
qed

lemma Clean_posix_join:
  assumes "list_all (plain posix) es" "es \<noteq> []"
  shows "Clean_posix (strings_Join es [Separator posix]) = strings_Join es [Separator posix]"
proof -
  obtain e es' where es: "es = e # es'" using assms(2) by (cases es) auto
  with assms(1) obtain c cs where e: "e = c # cs" "\<not> IsPathSeparator posix c"
    by (cases e) (auto simp: plain_def)
  have hd: "strings_Join es [Separator posix] \<noteq> []" "hd (strings_Join es [Separator posix]) = c"
    using es e by (cases es'; simp)+
  show ?thesis
    using hd e(2) Clean_loop_join[OF assms, of "[]" 0]
    by (simp add: Clean_posix_def Let_def)
qed

lemma Join_posix_plain:
  assumes "list_all (plain posix) es" "es \<noteq> []"
  shows "Join_posix es = strings_Join es [Separator posix]"
proof -
  obtain e es' where es: "es = e # es'" using assms(2) by (cases es) auto
  with assms(1) have "e \<noteq> []" by (auto simp: plain_def)
  then have "dropWhile (\<lambda>e. e = []) es = es" using es by simp
  then show ?thesis using Clean_posix_join[OF assms] es
    by (simp add: Join_posix_def)
qed

lemma strings_Join_replicate:
  "strings_Join (x # replicate n y) sep = x @ concat (replicate n (sep @ y))"
  by (induction n arbitrary: x) auto

lemma Clean_posix_nonempty: "Clean_posix p \<noteq> []"
  by (simp add: Clean_posix_def Let_def)

lemma remote_elems_plain: "list_all (plain os) (''set_by_reclient'' # replicate n ''a'')"
  by (cases os) (auto simp: plain_def list_all_iff)

lemma depth_remote_dir_of_depth:
  "depth os (remote_dir_of_depth os n) = (n - 1) + 1"
proof -
  have "length (filter (IsPathSeparator os) (concat (replicate k (Separator os # ''a'')))) = k" for k
    by (cases os; induction k; simp)
  moreover have "filter (IsPathSeparator os) ''set_by_reclient'' = []"
    by (cases os) auto
  ultimately show ?thesis
    by (cases os) (simp_all add: depth_count remote_dir_of_depth_def)
qed

text \<open>
  With the library's two functions taken as they are documented (\<open>Clean\<close> never returns
  the empty string, \<open>Join\<close> of plain elements puts one separator between two),
  \<open>toRemoteWorkingDir\<close> returns the path of the specification, whatever the host.
\<close>

lemma toRemoteWorkingDir_any_host:
  assumes "Clean h wd \<noteq> []"
    and "Join h (''set_by_reclient'' # replicate (depth (GOOS h) (Clean h wd) - 1) ''a'')
         = strings_Join (''set_by_reclient'' # replicate (depth (GOOS h) (Clean h wd) - 1) ''a'')
             [Separator (GOOS h)]"
  shows "toRemoteWorkingDir h wd =
           Inr (if wd = [] \<or> wd = ''.'' then wd
                else remote_dir_of_depth (GOOS h) (depth (GOOS h) (Clean h wd)))"
proof -
  have "0 < depth (GOOS h) (Clean h wd)"
    using assms(1) by (simp add: depth_count)
  then show ?thesis
    using assms(2)
    by (simp add: toRemoteWorkingDir_def Let_def remote_dir_of_depth_def strings_Join_replicate)
qed

lemma toRemoteWorkingDir_posix:
  "toRemoteWorkingDir posix_host wd =
     Inr (if wd = [] \<or> wd = ''.'' then wd
          else remote_dir_of_depth posix (depth posix (Clean_posix wd)))"
  using toRemoteWorkingDir_any_host[of posix_host wd]
    Join_posix_plain[OF remote_elems_plain, of "depth posix (Clean_posix wd) - 1"]
  by (simp add: posix_host_def Clean_posix_nonempty)

text \<open>
  Claim C7, as amended. \<open>depth\<close> is 0 on the empty path and otherwise 1 plus the number of
  bytes of the path that the host's \<open>os.IsPathSeparator\<close> accepts: the slash and the
  backslash on a Windows host, the slash alone on a POSIX host. So \<open>depth("") = 0\<close> and
  \<open>depth("/") = 2\<close> on every host, and \<open>depth\<close> of \<open>a/b\c\<close> is 3 on a Windows host and 2 on
  a POSIX host.
\<close>

theorem depth_counts_host_separators:
  "depth os path = (if path = [] then 0 else 1 + length (filter (IsPathSeparator os) path))
   \<and> IsPathSeparator windows c = (c = CHR ''/'' \<or> c = CHR 0x5C)
   \<and> IsPathSeparator posix c = (c = CHR ''/'')
   \<and> depth os [] = 0
   \<and> depth os ''/'' = 2
   \<and> depth windows (''a/b'' @ [CHR 0x5C] @ ''c'') = 3
   \<and> depth posix (''a/b'' @ [CHR 0x5C] @ ''c'') = 2"
proof -
  have "depth os ''/'' = 2"
    by (cases os) (simp_all add: depth_def)
  moreover have "depth os [] = 0"
    by (simp add: depth_def)
  moreover have "depth windows (''a/b'' @ [CHR 0x5C] @ ''c'') = 3"
    by (simp add: depth_def)
  moreover have "depth posix (''a/b'' @ [CHR 0x5C] @ ''c'') = 2"
    by (simp add: depth_def)
  ultimately show ?thesis
    by (auto simp: depth_count)
qed

theorem depth_counts_host_separators_witness:
  "depth windows (''out'' @ [CHR 0x5C] @ ''obj/x.o'') = 3
   \<and> depth posix (''out'' @ [CHR 0x5C] @ ''obj/x.o'') = 2"
  using depth_counts_host_separators[of windows "''out'' @ [CHR 0x5C] @ ''obj/x.o''" "CHR ''/''"]
    depth_counts_host_separators[of posix "''out'' @ [CHR 0x5C] @ ''obj/x.o''" "CHR ''/''"]
  by simp

text \<open>
  Claim C7 as it is stated fails on a POSIX host: there the backslash is an ordinary byte
  of a file name, and \<open>depth\<close> of \<open>a/b\c\<close> is 2, not 3.
\<close>

theorem depth_backslash_counterexample:
  "depth posix (''a/b'' @ [CHR 0x5C] @ ''c'') = 2
   \<and> depth posix (''a/b'' @ [CHR 0x5C] @ ''c'') \<noteq> 3"
  by (simp add: depth_def)

lemma depth_windows_spec_depth: "depth windows p = spec_depth p"
proof -
  have "IsPathSeparator windows = (\<lambda>c. c = CHR ''/'' \<or> c = CHR 0x5C)"
    by (auto simp: fun_eq_iff)
  then show ?thesis
    by (simp add: depth_count spec_depth_def)
qed

lemma depth_posix_spec_depth:
  assumes "CHR 0x5C \<notin> set p"
  shows "depth posix p = spec_depth p"
proof -
  have "filter (IsPathSeparator posix) p = filter (\<lambda>c. c = CHR ''/'' \<or> c = CHR 0x5C) p"
    using assms by (intro filter_cong) auto
  then show ?thesis
    by (simp add: depth_count spec_depth_def)
qed

lemma backtrack_subset: "set (backtrack os out dd) \<subseteq> set out"
proof (induction os out dd rule: backtrack.induct)
  case (1 os out dotdot)
  have b: "set (butlast out) \<subseteq> set out"
    by (auto dest: in_set_butlastD)
  show ?case
    using 1 b by (subst backtrack.simps) auto
qed

lemma Clean_loop_subset_of:
  assumes "set p \<subseteq> S" "set out \<subseteq> S" "Separator os \<in> S" "CHR ''.'' \<in> S"
  shows "set (Clean_loop os rooted p out dd) \<subseteq> S"
  using assms
proof (induction os rooted p out dd rule: Clean_loop.induct)
  case (1 os rooted out dotdot)
  then show ?case by simp
next
  case (2 os rooted c cs out dotdot)
  from "2.prems" have cs: "set cs \<subseteq> S" and c: "c \<in> S"
    by auto
  have tl: "set (tl cs) \<subseteq> S"
    using cs by (cases cs) auto
  have dw: "set (dropWhile (\<lambda>x. \<not> IsPathSeparator os x) cs) \<subseteq> S"
    using cs by (auto dest: set_dropWhileD)
  have tw: "set (takeWhile (\<lambda>x. \<not> IsPathSeparator os x) cs) \<subseteq> S"
    using cs by (auto dest: set_takeWhileD)
  have bt: "set (backtrack os out dotdot) \<subseteq> S"
    using backtrack_subset[of os out dotdot] "2.prems"(2) by blast
  show ?case
  proof (cases "IsPathSeparator os c")
    case True
    from "2.IH"(1)[OF True cs "2.prems"(2,3,4)] True show ?thesis
      by simp
  next
    case sep: False
    show ?thesis
    proof (cases "c = CHR ''.'' \<and> at_end_or_sep os cs")
      case True
      from "2.IH"(2)[OF sep True cs "2.prems"(2,3,4)] sep True show ?thesis
        by simp
    next
      case dot: False
      show ?thesis
      proof (cases "c = CHR ''.'' \<and> cs \<noteq> [] \<and> hd cs = CHR ''.'' \<and> at_end_or_sep os (tl cs)")
        case dd: True
        show ?thesis
        proof (cases "length out > dotdot")
          case True
          from "2.IH"(3)[OF sep dot dd True tl bt "2.prems"(3,4)] sep dot dd True show ?thesis
            by simp
        next
          case w: False
          show ?thesis
          proof (cases rooted)
            case True
            from "2.IH"(5)[OF sep dot dd w _ tl "2.prems"(2,3,4)] sep dot dd w True show ?thesis
              by simp
          next
            case nr: False
            have o: "set ((if length out > 0 then out @ [Separator os] else out) @ ''..'') \<subseteq> S"
              using "2.prems"(2,3,4) by auto
            from "2.IH"(4)[OF sep dot dd w nr tl o "2.prems"(3,4)] sep dot dd w nr show ?thesis
              by simp
          qed
        qed
      next
        case nd: False
        have o: "set ((if rooted \<and> length out \<noteq> 1 \<or> \<not> rooted \<and> length out \<noteq> 0
            then out @ [Separator os] else out)
           @ c # takeWhile (\<lambda>x. \<not> IsPathSeparator os x) cs) \<subseteq> S"
          using "2.prems"(2,3) c tw by auto
        from "2.IH"(6)[OF sep dot nd dw o "2.prems"(3,4)] sep dot nd show ?thesis
          by (simp only: Clean_loop.simps if_False)
      qed
    qed
  qed
qed

lemma Clean_loop_subset:
  "set (Clean_loop os rooted p out dd) \<subseteq> set p \<union> set out \<union> {Separator os, CHR ''.''}"
  by (rule Clean_loop_subset_of) auto

lemma Clean_posix_subset: "set (Clean_posix p) \<subseteq> set p \<union> {CHR ''/'', CHR ''.''}"
proof (cases p)
  case Nil
  then show ?thesis by (simp add: Clean_posix_def)
next
  case (Cons c cs)
  show ?thesis
    using Clean_loop_subset[of posix True cs "[CHR ''/'']" 1]
      Clean_loop_subset[of posix False p "[]" 0] Cons
    by (auto simp: Clean_posix_def Let_def)
qed

lemma Clean_posix_no_backslash:
  "CHR 0x5C \<notin> set p \<Longrightarrow> CHR 0x5C \<notin> set (Clean_posix p)"
  using Clean_posix_subset[of p] by auto

lemma spec_depth_remote_dir_of_depth:
  "spec_depth (remote_dir_of_depth os n) = depth os (remote_dir_of_depth os n)"
proof (cases os)
  case posix
  have "CHR 0x5C \<notin> set (remote_dir_of_depth posix n)"
    by (auto simp: remote_dir_of_depth_def)
  then show ?thesis
    using posix by (simp add: depth_posix_spec_depth)
next
  case windows
  then show ?thesis by (simp add: depth_windows_spec_depth)
qed

text \<open>
  Claim C8, as amended. \<open>toRemoteWorkingDir\<close> returns the empty string and \<open>.\<close> as they are.
  For every other working directory it returns the segment \<open>set_by_reclient\<close> followed by
  segments \<open>a\<close>, joined by the host's separator, and the path returned has as many
  segments as the cleaned working directory, where segments are what the host's
  \<open>os.IsPathSeparator\<close> separates (\<open>depth\<close>): the slash and the backslash on a Windows
  host, the slash alone on a POSIX host. So the specification's segment depth, with both
  separators counting, is preserved on a Windows host, and on a POSIX host for the
  working directories that hold no backslash. On a POSIX host all of this is proved of
  the library's \<open>Clean\<close> and \<open>Join\<close>; on any host it holds as soon as the library's \<open>Clean\<close>
  returns a non-empty path for the working directory and its \<open>Join\<close> puts one separator
  between the plain elements it is given.
\<close>

theorem toRemoteWorkingDir_same_depth:
  "toRemoteWorkingDir posix_host wd =
     Inr (if wd = [] \<or> wd = ''.'' then wd
          else remote_dir_of_depth posix (depth posix (Clean_posix wd)))
   \<and> depth posix (remote_dir_of_depth posix (depth posix (Clean_posix wd)))
       = depth posix (Clean_posix wd)
   \<and> (CHR 0x5C \<notin> set wd \<longrightarrow>
        spec_depth (remote_dir_of_depth posix (depth posix (Clean_posix wd)))
          = spec_depth (Clean_posix wd))
   \<and> (Clean h wd \<noteq> [] \<and>
      Join h (''set_by_reclient'' # replicate (depth (GOOS h) (Clean h wd) - 1) ''a'')
        = strings_Join (''set_by_reclient'' # replicate (depth (GOOS h) (Clean h wd) - 1) ''a'')
            [Separator (GOOS h)]
      \<longrightarrow> toRemoteWorkingDir h wd =
            Inr (if wd = [] \<or> wd = ''.'' then wd
                 else remote_dir_of_depth (GOOS h) (depth (GOOS h) (Clean h wd)))
        \<and> depth (GOOS h) (remote_dir_of_depth (GOOS h) (depth (GOOS h) (Clean h wd)))
            = depth (GOOS h) (Clean h wd)
        \<and> (GOOS h = windows \<or> CHR 0x5C \<notin> set (Clean h wd) \<longrightarrow>
             spec_depth (remote_dir_of_depth (GOOS h) (depth (GOOS h) (Clean h wd)))
               = spec_depth (Clean h wd)))"
proof -
  have pos: "Clean h' w \<noteq> [] \<Longrightarrow> depth (GOOS h') (Clean h' w) - 1 + 1 = depth (GOOS h') (Clean h' w)"
    for h' :: host and w
    by (simp add: depth_count)
  have a: "depth posix (remote_dir_of_depth posix (depth posix (Clean_posix wd)))
           = depth posix (Clean_posix wd)"
    using pos[of posix_host wd] depth_remote_dir_of_depth[of posix "depth posix (Clean_posix wd)"]
    by (simp add: posix_host_def Clean_posix_nonempty)
  have b: "Clean h wd \<noteq> [] \<Longrightarrow>
      depth (GOOS h) (remote_dir_of_depth (GOOS h) (depth (GOOS h) (Clean h wd)))
        = depth (GOOS h) (Clean h wd)"
    using pos[of h wd] depth_remote_dir_of_depth[of "GOOS h" "depth (GOOS h) (Clean h wd)"]
    by simp
  have sp: "depth (GOOS h) (Clean h wd) = spec_depth (Clean h wd)"
    if "GOOS h = windows \<or> CHR 0x5C \<notin> set (Clean h wd)"
    using that depth_windows_spec_depth[of "Clean h wd"] depth_posix_spec_depth[of "Clean h wd"]
    by (cases "GOOS h") auto
  have c: "CHR 0x5C \<notin> set wd \<Longrightarrow>
        spec_depth (remote_dir_of_depth posix (depth posix (Clean_posix wd)))
          = spec_depth (Clean_posix wd)"
    using a depth_posix_spec_depth[OF Clean_posix_no_backslash, of wd]
    by (simp add: spec_depth_remote_dir_of_depth)
  have d: "Clean h wd \<noteq> [] \<Longrightarrow> GOOS h = windows \<or> CHR 0x5C \<notin> set (Clean h wd) \<Longrightarrow>
             spec_depth (remote_dir_of_depth (GOOS h) (depth (GOOS h) (Clean h wd)))
               = spec_depth (Clean h wd)"
    using b sp by (simp add: spec_depth_remote_dir_of_depth)
  show ?thesis
    using a b c d toRemoteWorkingDir_posix[of wd] toRemoteWorkingDir_any_host[of h wd]
    by blast
qed

theorem toRemoteWorkingDir_same_depth_witness:
  "toRemoteWorkingDir posix_host ''out/Release//obj/'' = Inr ''set_by_reclient/a/a''
   \<and> Clean_posix ''out/Release//obj/'' = ''out/Release/obj''
   \<and> depth posix ''set_by_reclient/a/a'' = depth posix ''out/Release/obj''
   \<and> spec_depth ''set_by_reclient/a/a'' = spec_depth ''out/Release/obj''
   \<and> toRemoteWorkingDir posix_host ''.'' = Inr ''.''"
proof -
  have c: "Clean_posix ''out/Release//obj/'' = ''out/Release/obj''"
    by (simp add: Clean_posix_def)
  have d: "depth posix ''out/Release/obj'' = 3"
    by (simp add: depth_def)
  have j: "Join_posix [''set_by_reclient'', ''a'', ''a''] = ''set_by_reclient/a/a''"
    by (simp add: Join_posix_def Clean_posix_def)
  have r: "remote_dir_of_depth posix 3 = ''set_by_reclient/a/a''"
    by (simp add: remote_dir_of_depth_def numeral_3_eq_3)
  have h1: "Clean posix_host ''out/Release//obj/'' \<noteq> []"
    by (simp add: posix_host_def c)
  have h2: "Join posix_host (''set_by_reclient'' #
              replicate (depth (GOOS posix_host) (Clean posix_host ''out/Release//obj/'') - 1) ''a'')
            = strings_Join (''set_by_reclient'' #
              replicate (depth (GOOS posix_host) (Clean posix_host ''out/Release//obj/'') - 1) ''a'')
                [Separator (GOOS posix_host)]"
    by (simp add: posix_host_def c d j numeral_2_eq_2)
  have h3: "CHR 0x5C \<notin> set ''out/Release//obj/''"
    by simp
  show ?thesis
    using toRemoteWorkingDir_same_depth[of "''out/Release//obj/''" posix_host] h1 h2 h3
      toRemoteWorkingDir_same_depth[of "''.''" posix_host]
    by (simp add: c d r posix_host_def)
qed

text \<open>
  Claim C8 as it is stated fails on a POSIX host: the working directory \<open>out\Release\<close> has
  two segments when both separators count, the path returned for it has one.
\<close>

theorem toRemoteWorkingDir_backslash_counterexample:
  "toRemoteWorkingDir posix_host (''out'' @ [CHR 0x5C] @ ''Release'') = Inr ''set_by_reclient''
   \<and> Clean_posix (''out'' @ [CHR 0x5C] @ ''Release'') = ''out'' @ [CHR 0x5C] @ ''Release''
   \<and> spec_depth (''out'' @ [CHR 0x5C] @ ''Release'') = 2
   \<and> spec_depth ''set_by_reclient'' = 1"
  by (simp add: toRemoteWorkingDir_def posix_host_def Clean_posix_def depth_def spec_depth_def
        Join_posix_def)

section \<open>Cached results\<close>

lemma cachedResultValid_iff:
  "snd (cachedResultValid dp a) = deps_verified dp a"
  by (auto simp: cachedResultValid_def deps_verified_def createParser_def Let_def
           split: option.splits prod.splits)

lemma cachedResultValid_frame:
  "rec (fst (cachedResultValid dp a)) = rec a"
  "res (fst (cachedResultValid dp a)) = res a"
  "cmd (fst (cachedResultValid dp a)) = cmd a"
  by (auto simp: cachedResultValid_def createParser_def Let_def split: option.splits prod.splits)

text \<open>
  Claim C3. Take a remote cache hit: the lookup leaves an ok result in the execution
  context. \<open>getCachedResult\<close> accepts it as a valid cache hit (sets \<open>ValidCacheHit\<close> and
  keeps the cached result as the action's result) exactly when deps-file verification
  succeeds, which it does at once when no dependency file was stored. On a
  verification error or a mismatch the action's result becomes a local error, which is
  not ok, and the local metadata, \<open>ValidCacheHit\<close> included, is left as it was.
\<close>

theorem getCachedResult_accepts_only_verified:
  assumes hit: "execContext a = Some ec0" "Context.Result (GetCachedResult sdk ec0) = Some cr" "IsOk cr"
    and r: "rec a = Some r"
  shows "if deps_verified dp a then
           (case LocalMetadata r of
              None \<Rightarrow> getCachedResult lg sdk dp a = Inl nil_pointer_dereference
            | Some lm \<Rightarrow>
                (\<exists>a' r'. getCachedResult lg sdk dp a = Inr a' \<and> res a' = Some cr \<and> rec a' = Some r'
                   \<and> LocalMetadata r' = Some (lm\<lparr>ValidCacheHit := True\<rparr>)))
         else
           (\<exists>a' r'. getCachedResult lg sdk dp a = Inr a'
              \<and> res a' = Some (NewLocalErrorResult
                                 (errorString (ExecutionID (cmd a) @ '' failed deps validation'')))
              \<and> \<not> IsOk (NewLocalErrorResult
                                 (errorString (ExecutionID (cmd a) @ '' failed deps validation'')))
              \<and> rec a' = Some r' \<and> LocalMetadata r' = LocalMetadata r)"
proof -
  have frame [simp]: "deps_verified dp (b\<lparr>execContext := x\<rparr>) = deps_verified dp b"
      "deps_verified dp (b\<lparr>rec := y\<rparr>) = deps_verified dp b"
      "deps_verified dp (b\<lparr>res := z\<rparr>) = deps_verified dp b" for b x y z
    by (simp_all add: deps_verified_def cong: option.case_cong)
  show ?thesis
  proof (cases "deps_verified dp a")
    case True
    with hit r show ?thesis
      by (auto simp: getCachedResult_def Let_def case_prod_beta cachedResultValid_iff
            cachedResultValid_frame split: option.splits)
  next
    case False
    with hit r show ?thesis
      by (auto simp: getCachedResult_def Let_def case_prod_beta cachedResultValid_iff
            cachedResultValid_frame IsOk_def NewLocalErrorResult_def split: option.splits)
  qed
qed

theorem getCachedResult_accepts_only_verified_witness:
  "(\<exists>a'. getCachedResult example_logger cached_rexec mismatching_deps example_action = Inr a'
      \<and> res a' = Some (NewLocalErrorResult (errorString ''id1 failed deps validation''))
      \<and> rec a' = Some \<lparr>LocalMetadata = Some empty_LocalMetadata,
                        RemoteMetadata = Some \<lparr>CacheHit = True, RemoteMetadata.Result = Some cache_hit,
                                                RemoteMetadata.ActionDigest = ''ad''\<rparr>\<rparr>)
   \<and> \<not> deps_verified mismatching_deps example_action"
proof -
  have v: "\<not> deps_verified mismatching_deps example_action"
    by (simp add: deps_verified_def mismatching_deps_def example_action_def)
  have g: "getCachedResult example_logger cached_rexec mismatching_deps example_action
           = Inr (example_action\<lparr>
               execContext := Some (example_Context\<lparr>Context.Result := Some cache_hit\<rparr>),
               rec := Some \<lparr>LocalMetadata = Some empty_LocalMetadata,
                        RemoteMetadata = Some \<lparr>CacheHit = True, RemoteMetadata.Result = Some cache_hit,
                                                RemoteMetadata.ActionDigest = ''ad''\<rparr>\<rparr>,
               parser := Some \<lparr>parser_ExecRoot = ''/w''\<rparr>,
               res := Some (NewLocalErrorResult (errorString ''id1 failed deps validation''))\<rparr>)"
    by (simp add: getCachedResult_def cachedResultValid_def createParser_def Let_def
          example_action_def example_logger_def cached_rexec_def mismatching_deps_def
          example_Context_def cache_hit_def IsOk_def)
  show ?thesis
    using getCachedResult_accepts_only_verified[of example_action example_Context cached_rexec
        cache_hit "\<lparr>LocalMetadata = Some empty_LocalMetadata, RemoteMetadata = None\<rparr>"
        mismatching_deps example_logger] v g
    by simp
qed

section \<open>The race coordinator\<close>

lemma race_finalize_local:
  assumes "t w = local" "rec a = Some r"
  shows "race_finalize h lg sdk os env pre w nf (a, m) =
         Returned (a\<lparr>rec := Some (RecordEventTime lg ''RacingFinalizationOverhead'' r),
                     oe := raceResult.oe w\<rparr>) nf m"
  using assms by (simp add: race_finalize_def)

lemma race_finalize_returns: "race_finalize h lg sdk os env pre w nf st \<noteq> Blocked"
  by (cases st)
     (auto simp: race_finalize_def Let_def split: option.splits sum.splits prod.splits)

text \<open>
  Claim C1. After a first race outcome of kind remote or canceled the coordinator waits
  for a second one (with the first alone it is blocked). If the second is local it
  becomes the winner: the action, as the two attempts left it, gets the local attempt's
  output sink, and the counter \<open>numFallbacks\<close> is incremented by exactly one when the
  first was canceled and left as it is when the first was remote. If the second is not
  local (it is canceled), the first outcome stays the winner and the counter is left as
  it is.
\<close>

theorem race_second_outcome:
  assumes first: "t w = remote \<or> t w = canceled"
    and tmp: "createTmpDir_err env = None"
    and s1: "attempt h lg rnd sdk mh s1 a = Inr (a1, recv w)"
    and s2: "attempt h lg rnd sdk mh s2 a1 = Inr (a2, recv rr)"
    and r: "rec a2 = Some r"
  shows "race_wait [recv w] nf = waiting
     \<and> race h lg rnd sdk os env [s1] nf mh (a, m) = Blocked
     \<and> (t rr = local \<longrightarrow>
          race_wait (recv w # recv rr # evs) nf
            = winner rr (if t w = canceled then nf + 1 else nf) (t w \<noteq> canceled)
        \<and> race h lg rnd sdk os env (s1 # s2 # steps) nf mh (a, m)
            = Returned (a2\<lparr>rec := Some (RecordEventTime lg ''RacingFinalizationOverhead'' r),
                           oe := raceResult.oe rr\<rparr>)
                (if t w = canceled then nf + 1 else nf) m)
     \<and> (t rr \<noteq> local \<longrightarrow>
          race_wait (recv w # recv rr # evs) nf = winner w nf (t w \<noteq> canceled)
        \<and> race h lg rnd sdk os env (s1 # s2 # steps) nf mh (a, m)
            = race_finalize h lg sdk os env
                (if PreserveUnchangedOutputMtime (rOpt a) then getPreExecOutsInfo env else Map.empty)
                w nf (a2, m))"
  using first tmp s1 s2 r
  by (auto simp: race_def race_selects_def race_finalize_local)

theorem race_second_outcome_witness:
  "race posix_host example_logger (\<lambda>x. x) failing_rexec example_os_env example_race_env
     [remote_sends remote_env_racing] 7 1000000000 (example_action, Map.empty) = Blocked
   \<and> race posix_host example_logger (\<lambda>x. x) failing_rexec example_os_env example_race_env
       [remote_sends remote_env_racing, local_sends successful_pool_Run] 7 1000000000
       (example_action, Map.empty)
     = Returned
         (example_action\<lparr>
            execContext := Some (example_Context\<lparr>Context.Result := Some remote_failure\<rparr>),
            res := Some (NewResultFromExitCode 0),
            rec := Some \<lparr>LocalMetadata = Some (empty_LocalMetadata\<lparr>ExecutedLocally := True,
                            LocalMetadata.Result := Some (NewResultFromExitCode 0)\<rparr>),
                         RemoteMetadata = None\<rparr>,
            oe := Some \<lparr>Stdout = ''ok'', Stderr = []\<rparr>\<rparr>)
         8 Map.empty"
proof -
  let ?a1 = "example_action\<lparr>execContext := Some (example_Context\<lparr>Context.Result := Some remote_failure\<rparr>)\<rparr>"
  let ?r = "\<lparr>LocalMetadata = Some (empty_LocalMetadata\<lparr>ExecutedLocally := True,
                            LocalMetadata.Result := Some (NewResultFromExitCode 0)\<rparr>),
                         RemoteMetadata = None\<rparr>"
  let ?a2 = "?a1\<lparr>res := Some (NewResultFromExitCode 0), rec := Some ?r\<rparr>"
  have s1: "attempt posix_host example_logger (\<lambda>x. x) failing_rexec 1000000000
              (remote_sends remote_env_racing) example_action
            = Inr (?a1, recv \<lparr>raceResult.res = Some remote_failure, oe = None, t = canceled\<rparr>)"
    by (simp add: runRemoteRace_def runRemoteRace_download_def failing_rexec_def
          remote_env_racing_def example_Context_def remote_failure_def IsOk_def Let_def)
  have s2: "attempt posix_host example_logger (\<lambda>x. x) failing_rexec 1000000000
              (local_sends successful_pool_Run) ?a1
            = Inr (?a2, recv \<lparr>raceResult.res = Some (NewResultFromExitCode 0),
                              oe = Some \<lparr>Stdout = ''ok'', Stderr = []\<rparr>, t = local\<rparr>)"
    by (simp add: runLocalRace_def runLocalRace_ran_def successful_pool_Run_def example_action_def
          example_logger_def Let_def)
  have r: "rec ?a2 = Some ?r"
    by simp
  show ?thesis
    using race_second_outcome[of "\<lparr>raceResult.res = Some remote_failure, oe = None, t = canceled\<rparr>"
        example_race_env posix_host example_logger "\<lambda>x. x" failing_rexec 1000000000
        "remote_sends remote_env_racing" example_action ?a1 "local_sends successful_pool_Run" ?a2
        "\<lparr>raceResult.res = Some (NewResultFromExitCode 0),
                              oe = Some \<lparr>Stdout = ''ok'', Stderr = []\<rparr>, t = local\<rparr>"
        ?r 7 example_os_env Map.empty "[]" "[]", OF _ _ s1 s2 r]
    by (simp add: example_race_env_def example_logger_def example_action_def)
qed

text \<open>
  Claim C5. When a \<open>select\<close> of the coordinator takes the end of the parent scope, be it
  while waiting for the first outcome or for the second, \<open>race\<close> returns with the
  action's result a local error that carries \<open>ctx.Err()\<close>, the parent scope's reason for
  ending.
\<close>

theorem race_parent_cancelled:
  assumes tmp: "createTmpDir_err env = None"
  shows "race h lg rnd sdk os env (parent_ends e # steps) nf mh (a, m)
           = Returned (a\<lparr>res := Some (NewLocalErrorResult e)\<rparr>) nf m
     \<and> (attempt h lg rnd sdk mh s1 a = Inr (a1, recv w) \<and> (t w = remote \<or> t w = canceled) \<longrightarrow>
          race h lg rnd sdk os env (s1 # parent_ends e # steps) nf mh (a, m)
            = Returned (a1\<lparr>res := Some (NewLocalErrorResult e)\<rparr>) nf m)
     \<and> Status (NewLocalErrorResult e) = LocalErrorResultStatus
     \<and> Result.Err (NewLocalErrorResult e) = Some e"
  using tmp by (auto simp: race_def race_selects_def NewLocalErrorResult_def)

theorem race_parent_cancelled_witness:
  "race posix_host example_logger (\<lambda>x. x) failing_rexec example_os_env example_race_env
     [parent_ends context_Canceled] 0 1000000000 (example_action, Map.empty)
     = Returned (example_action\<lparr>res := Some (NewLocalErrorResult context_Canceled)\<rparr>) 0 Map.empty
   \<and> race posix_host example_logger (\<lambda>x. x) failing_rexec example_os_env example_race_env
     [remote_sends remote_env_racing, parent_ends context_DeadlineExceeded] 0 1000000000
     (example_action, Map.empty)
     = Returned (example_action\<lparr>
          execContext := Some (example_Context\<lparr>Context.Result := Some remote_failure\<rparr>),
          res := Some (NewLocalErrorResult context_DeadlineExceeded)\<rparr>) 0 Map.empty"
proof -
  let ?a1 = "example_action\<lparr>execContext := Some (example_Context\<lparr>Context.Result := Some remote_failure\<rparr>)\<rparr>"
  have s1: "attempt posix_host example_logger (\<lambda>x. x) failing_rexec 1000000000
              (remote_sends remote_env_racing) example_action
            = Inr (?a1, recv \<lparr>raceResult.res = Some remote_failure, oe = None, t = canceled\<rparr>)"
    by (simp add: runRemoteRace_def runRemoteRace_download_def failing_rexec_def
          remote_env_racing_def example_Context_def remote_failure_def IsOk_def Let_def)
  show ?thesis
    using race_parent_cancelled[of example_race_env posix_host example_logger "\<lambda>x. x" failing_rexec
        example_os_env context_Canceled "[]" 0 1000000000 example_action Map.empty]
      race_parent_cancelled[of example_race_env posix_host example_logger "\<lambda>x. x" failing_rexec
        example_os_env context_DeadlineExceeded "[]" 0 1000000000 example_action Map.empty
        "remote_sends remote_env_racing" ?a1
        "\<lparr>raceResult.res = Some remote_failure, oe = None, t = canceled\<rparr>"]
      s1
    by (simp add: example_race_env_def)
qed


section \<open>The local attempt\<close>

text \<open>
  Claim C10. When the pool's \<open>Run\<close> returns exit code 0 with an error that is not the
  context's cancellation, \<open>runLocalRace\<close> returns an outcome of kind canceled that
  carries the local-error result of that error and leaves the action as it was, so
  \<open>ExecutedLocally\<close> is not set. The coordinator does not take it for a local win: after
  a first outcome of kind remote, the remote outcome stays the winner.
\<close>

theorem runLocalRace_unexpected_error:
  assumes "err run = Some e" "\<not> errors_Is e context_Canceled" "exitCode run = 0"
  shows "runLocalRace lg run a
           = Inr (a, \<lparr>raceResult.res = Some (NewLocalErrorResult e), oe = None, t = canceled\<rparr>)
     \<and> (t w = remote \<longrightarrow>
          race_wait [recv w, recv \<lparr>raceResult.res = Some (NewLocalErrorResult e), oe = None, t = canceled\<rparr>] nf
            = winner w nf True)"
  using assms by (auto simp: runLocalRace_def)

theorem runLocalRace_unexpected_error_witness:
  "runLocalRace example_logger failing_pool_Run example_action
     = Inr (example_action,
            \<lparr>raceResult.res = Some (NewLocalErrorResult
                 (errorString ''fork/exec: resource temporarily unavailable'')),
             oe = None, t = canceled\<rparr>)
   \<and> race_wait [recv \<lparr>raceResult.res = Some cache_hit, oe = None, t = remote\<rparr>,
                 recv \<lparr>raceResult.res = Some (NewLocalErrorResult
                        (errorString ''fork/exec: resource temporarily unavailable'')),
                       oe = None, t = canceled\<rparr>] 3
     = winner \<lparr>raceResult.res = Some cache_hit, oe = None, t = remote\<rparr> 3 True"
  using runLocalRace_unexpected_error[of failing_pool_Run
      "errorString ''fork/exec: resource temporarily unavailable''" example_logger example_action
      "\<lparr>raceResult.res = Some cache_hit, oe = None, t = remote\<rparr>" 3]
  by (simp add: failing_pool_Run_def)

section \<open>The remote attempt\<close>

lemma runRemoteRace_download_cases:
  assumes "runRemoteRace_download sdk env tmpDir sl ec a = Inr (a', rr, sl')"
  shows "sl' = sl
     \<and> (t rr = remote \<or> t rr = canceled)
     \<and> (\<exists>ec'. execContext a' = Some ec' \<or> a' = a)
     \<and> (t rr = remote \<longrightarrow>
          (\<exists>ec' r. execContext a' = Some ec' \<and> Context.Result ec' = Some r \<and> IsOk r
                    \<and> raceResult.res rr = Some r))
     \<and> (t rr = canceled \<and> \<not> cCtx_done_after_download env \<longrightarrow>
          (\<exists>r. raceResult.res rr = Some r \<and> \<not> IsOk r
             \<and> (a' = a \<and> Context.Result ec = Some r
                \<or> (\<exists>ec'. execContext a' = Some ec' \<and> Context.Result ec' = Some r))))"
  using assms
  by (auto simp: runRemoteRace_download_def Let_def split: option.splits if_splits)

lemma runRemoteRace_returns:
  assumes ex: "\<And>ec. Context.Result (ExecuteRemotely sdk ec) \<noteq> None"
    and dl: "\<And>ec. Context.Result (DownloadOutputs sdk tmpDir ec) \<noteq> None"
  shows "\<exists>a' rr sl. runRemoteRace rnd sdk env tmpDir maxHoldoff a = Inr (a', rr, sl)
            \<and> (t rr = remote \<or> t rr = canceled)
            \<and> (t rr = remote \<longrightarrow>
                 (\<exists>ec r. execContext a' = Some ec \<and> Context.Result ec = Some r \<and> IsOk r
                         \<and> raceResult.res rr = Some r))
            \<and> (t rr = canceled \<and> \<not> cCtx_done_after_execute env \<and> \<not> cCtx_done_after_download env \<longrightarrow>
                 (\<exists>r. raceResult.res rr = Some r \<and> \<not> IsOk r
                    \<and> (case execContext a' of
                          None \<Rightarrow> (\<exists>e. NewContext sdk (rcmd a) = Inl e \<and> r = NewLocalErrorResult e)
                        | Some ec \<Rightarrow> Context.Result ec = Some r)))"
proof -
  have dlc: "\<exists>x. runRemoteRace_download sdk env tmpDir sl ec b = Inr x"
    if "Context.Result ec \<noteq> None" for sl ec b
    using that dl[of ec]
    by (auto simp: runRemoteRace_download_def Let_def split: option.splits)
  show ?thesis
  proof (cases "NewContext sdk (rcmd a)")
    case (Inl e)
    then show ?thesis
      by (simp add: runRemoteRace_def IsOk_def NewLocalErrorResult_def)
  next
    case (Inr ec0)
    show ?thesis
    proof (cases "Context.Result (GetCachedResult sdk ec0)")
      case None
      show ?thesis
      proof (cases "cCtx_done_after_execute env")
        case True
        with None Inr show ?thesis
          by (simp add: runRemoteRace_def Let_def)
      next
        case False
        obtain a' rr sl' where d: "runRemoteRace_download sdk env tmpDir closed_at_once
            (ExecuteRemotely sdk (GetCachedResult sdk ec0))
            (a\<lparr>execContext := Some (ExecuteRemotely sdk (GetCachedResult sdk ec0))\<rparr>) = Inr (a', rr, sl')"
          using dlc[OF ex] by (metis prod_cases3)
        from runRemoteRace_download_cases[OF d] None Inr False d show ?thesis
          by (auto simp: runRemoteRace_def Let_def)
      qed
    next
      case (Some r)
      obtain a' rr sl' where d: "runRemoteRace_download sdk env tmpDir
            (closed_after_holdoff (holdoff rnd (racingBias a) (PercentileDownloadLatency env) maxHoldoff))
            (GetCachedResult sdk ec0)
            (a\<lparr>execContext := Some (GetCachedResult sdk ec0)\<rparr>) = Inr (a', rr, sl')"
        using dlc[of "GetCachedResult sdk ec0"] Some by (metis option.distinct(1) prod_cases3)
      from runRemoteRace_download_cases[OF d] Some Inr d show ?thesis
        by (auto simp: runRemoteRace_def Let_def)
    qed
  qed
qed

lemma race_blocked_after_canceled:
  assumes "createTmpDir_err renv = None" "attempt h lg rnd sdk mh s1 a = Inr (a1, recv w)"
    "t w = canceled"
  shows "(race h lg rnd sdk os renv (s1 # steps) nf mh (a, m) = Blocked) = (steps = [])"
proof (cases steps)
  case Nil
  with assms show ?thesis
    by (simp add: race_def race_selects_def)
next
  case (Cons s2 steps')
  show ?thesis
  proof (cases "attempt h lg rnd sdk mh s2 a1")
    case (Inl p)
    with assms Cons show ?thesis
      by (simp add: race_def race_selects_def)
  next
    case (Inr x)
    obtain a2 e2 where x: "x = (a2, e2)" by (cases x)
    show ?thesis
      using assms Cons Inr x race_finalize_returns
      by (cases e2) (auto simp: race_def race_selects_def)
  qed
qed

text \<open>
  Claim C4, as amended. A remote attempt that fails returns an outcome of kind canceled,
  whatever the stage it fails at. When the execution context cannot be created, the
  outcome carries the local-error result of that error. When the cache lookup leaves a
  result that is not ok, the outcome carries that result. When remote execution leaves a
  result that is not ok, the outcome carries that result, unless the sibling scope is
  found done at the check after the execution: then it carries no result. When the
  download leaves a result that is not ok, the outcome carries that result, unless the
  sibling scope is found done at the check after the download: then it carries no
  result. Nothing is downloaded after a lookup or an execution that failed. When the SDK
  leaves a result after every remote execution and download, \<open>runRemoteRace\<close> returns,
  and with an outcome of kind remote only when the result is ok. After a first outcome
  of kind canceled, \<open>race\<close> does not return until its second \<open>select\<close> takes something: the
  other attempt's outcome, or the end of the parent scope.
\<close>

theorem remote_failure_is_canceled:
  "(NewContext sdk (rcmd a) = Inl e \<longrightarrow>
      runRemoteRace rnd sdk env tmpDir maxHoldoff a
        = Inr (a\<lparr>execContext := None\<rparr>,
               \<lparr>raceResult.res = Some (NewLocalErrorResult e), oe = None, t = canceled\<rparr>,
               closed_at_once)
      \<and> \<not> IsOk (NewLocalErrorResult e))
   \<and> (NewContext sdk (rcmd a) = Inr ec0 \<and> Context.Result (GetCachedResult sdk ec0) = Some r
       \<and> \<not> IsOk r \<longrightarrow>
      runRemoteRace rnd sdk env tmpDir maxHoldoff a
        = Inr (a\<lparr>execContext := Some (GetCachedResult sdk ec0)\<rparr>,
               \<lparr>raceResult.res = Some r, oe = None, t = canceled\<rparr>,
               closed_after_holdoff
                 (holdoff rnd (racingBias a) (PercentileDownloadLatency env) maxHoldoff)))
   \<and> (NewContext sdk (rcmd a) = Inr ec0 \<and> Context.Result (GetCachedResult sdk ec0) = None
       \<and> Context.Result (ExecuteRemotely sdk (GetCachedResult sdk ec0)) = Some r
       \<and> \<not> IsOk r \<longrightarrow>
      runRemoteRace rnd sdk env tmpDir maxHoldoff a
        = Inr (a\<lparr>execContext := Some (ExecuteRemotely sdk (GetCachedResult sdk ec0))\<rparr>,
               \<lparr>raceResult.res = (if cCtx_done_after_execute env then None else Some r),
                oe = None, t = canceled\<rparr>,
               closed_at_once))
   \<and> (NewContext sdk (rcmd a) = Inr ec0
       \<and> ec = (if Context.Result (GetCachedResult sdk ec0) = None
                then ExecuteRemotely sdk (GetCachedResult sdk ec0) else GetCachedResult sdk ec0)
       \<and> (Context.Result (GetCachedResult sdk ec0) = None \<longrightarrow> \<not> cCtx_done_after_execute env)
       \<and> Context.Result ec = Some r \<and> IsOk r
       \<and> Context.Result (DownloadOutputs sdk tmpDir ec) = Some r' \<and> \<not> IsOk r' \<longrightarrow>
      runRemoteRace rnd sdk env tmpDir maxHoldoff a
        = Inr (a\<lparr>execContext := Some (DownloadOutputs sdk tmpDir ec)\<rparr>,
               (if cCtx_done_after_download env
                then \<lparr>raceResult.res = None, oe = None, t = canceled\<rparr>
                else \<lparr>raceResult.res = Some r', oe = Some (rOE env), t = canceled\<rparr>),
               (if Context.Result (GetCachedResult sdk ec0) = None then closed_at_once
                else closed_after_holdoff
                       (holdoff rnd (racingBias a) (PercentileDownloadLatency env) maxHoldoff))))
   \<and> ((\<forall>c. Context.Result (ExecuteRemotely sdk c) \<noteq> None)
       \<and> (\<forall>c. Context.Result (DownloadOutputs sdk tmpDir c) \<noteq> None) \<longrightarrow>
      (\<exists>a' rr sl. runRemoteRace rnd sdk env tmpDir maxHoldoff a = Inr (a', rr, sl)
            \<and> (t rr = remote \<or> t rr = canceled)
            \<and> (t rr = remote \<longrightarrow>
                 (\<exists>c x. execContext a' = Some c \<and> Context.Result c = Some x \<and> IsOk x
                         \<and> raceResult.res rr = Some x))
            \<and> (t rr = canceled \<and> \<not> cCtx_done_after_execute env \<and> \<not> cCtx_done_after_download env \<longrightarrow>
                 (\<exists>x. raceResult.res rr = Some x \<and> \<not> IsOk x
                    \<and> (case execContext a' of
                          None \<Rightarrow> (\<exists>e. NewContext sdk (rcmd a) = Inl e \<and> x = NewLocalErrorResult e)
                        | Some c \<Rightarrow> Context.Result c = Some x)))))
   \<and> (createTmpDir_err renv = None \<and> attempt h lg rnd sdk maxHoldoff s1 b = Inr (b1, recv w)
       \<and> t w = canceled \<longrightarrow>
        (race h lg rnd sdk os renv (s1 # steps) nf maxHoldoff (b, m) = Blocked) = (steps = []))"
proof -
  have c1: "NewContext sdk (rcmd a) = Inl e \<longrightarrow>
      runRemoteRace rnd sdk env tmpDir maxHoldoff a
        = Inr (a\<lparr>execContext := None\<rparr>,
               \<lparr>raceResult.res = Some (NewLocalErrorResult e), oe = None, t = canceled\<rparr>,
               closed_at_once)
      \<and> \<not> IsOk (NewLocalErrorResult e)"
    by (simp add: runRemoteRace_def IsOk_def NewLocalErrorResult_def)
  have c2: "NewContext sdk (rcmd a) = Inr ec0 \<and> Context.Result (GetCachedResult sdk ec0) = Some r
       \<and> \<not> IsOk r \<longrightarrow>
      runRemoteRace rnd sdk env tmpDir maxHoldoff a
        = Inr (a\<lparr>execContext := Some (GetCachedResult sdk ec0)\<rparr>,
               \<lparr>raceResult.res = Some r, oe = None, t = canceled\<rparr>,
               closed_after_holdoff
                 (holdoff rnd (racingBias a) (PercentileDownloadLatency env) maxHoldoff))"
    by (simp add: runRemoteRace_def runRemoteRace_download_def Let_def)
  have c3: "NewContext sdk (rcmd a) = Inr ec0 \<and> Context.Result (GetCachedResult sdk ec0) = None
       \<and> Context.Result (ExecuteRemotely sdk (GetCachedResult sdk ec0)) = Some r
       \<and> \<not> IsOk r \<longrightarrow>
      runRemoteRace rnd sdk env tmpDir maxHoldoff a
        = Inr (a\<lparr>execContext := Some (ExecuteRemotely sdk (GetCachedResult sdk ec0))\<rparr>,
               \<lparr>raceResult.res = (if cCtx_done_after_execute env then None else Some r),
                oe = None, t = canceled\<rparr>,
               closed_at_once)"
    by (simp add: runRemoteRace_def runRemoteRace_download_def Let_def)
  have c4: "NewContext sdk (rcmd a) = Inr ec0
       \<and> ec = (if Context.Result (GetCachedResult sdk ec0) = None
                then ExecuteRemotely sdk (GetCachedResult sdk ec0) else GetCachedResult sdk ec0)
       \<and> (Context.Result (GetCachedResult sdk ec0) = None \<longrightarrow> \<not> cCtx_done_after_execute env)
       \<and> Context.Result ec = Some r \<and> IsOk r
       \<and> Context.Result (DownloadOutputs sdk tmpDir ec) = Some r' \<and> \<not> IsOk r' \<longrightarrow>
      runRemoteRace rnd sdk env tmpDir maxHoldoff a
        = Inr (a\<lparr>execContext := Some (DownloadOutputs sdk tmpDir ec)\<rparr>,
               (if cCtx_done_after_download env
                then \<lparr>raceResult.res = None, oe = None, t = canceled\<rparr>
                else \<lparr>raceResult.res = Some r', oe = Some (rOE env), t = canceled\<rparr>),
               (if Context.Result (GetCachedResult sdk ec0) = None then closed_at_once
                else closed_after_holdoff
                       (holdoff rnd (racingBias a) (PercentileDownloadLatency env) maxHoldoff)))"
    by (cases "Context.Result (GetCachedResult sdk ec0)")
       (auto simp: runRemoteRace_def runRemoteRace_download_def Let_def)
  have c5: "(\<forall>c. Context.Result (ExecuteRemotely sdk c) \<noteq> None)
       \<and> (\<forall>c. Context.Result (DownloadOutputs sdk tmpDir c) \<noteq> None) \<longrightarrow>
      (\<exists>a' rr sl. runRemoteRace rnd sdk env tmpDir maxHoldoff a = Inr (a', rr, sl)
            \<and> (t rr = remote \<or> t rr = canceled)
            \<and> (t rr = remote \<longrightarrow>
                 (\<exists>c x. execContext a' = Some c \<and> Context.Result c = Some x \<and> IsOk x
                         \<and> raceResult.res rr = Some x))
            \<and> (t rr = canceled \<and> \<not> cCtx_done_after_execute env \<and> \<not> cCtx_done_after_download env \<longrightarrow>
                 (\<exists>x. raceResult.res rr = Some x \<and> \<not> IsOk x
                    \<and> (case execContext a' of
                          None \<Rightarrow> (\<exists>e. NewContext sdk (rcmd a) = Inl e \<and> x = NewLocalErrorResult e)
                        | Some c \<Rightarrow> Context.Result c = Some x))))"
    using runRemoteRace_returns[of sdk tmpDir rnd env maxHoldoff a] by blast
  have c6: "createTmpDir_err renv = None \<and> attempt h lg rnd sdk maxHoldoff s1 b = Inr (b1, recv w)
       \<and> t w = canceled \<longrightarrow>
        (race h lg rnd sdk os renv (s1 # steps) nf maxHoldoff (b, m) = Blocked) = (steps = [])"
    using race_blocked_after_canceled by blast
  show ?thesis
    using c1 c2 c3 c4 c5 c6 by blast
qed


theorem remote_failure_is_canceled_witness:
  "runRemoteRace (\<lambda>x. x) failing_rexec remote_env_racing ''/tmp/racing/id1'' 1000000000 example_action
     = Inr (example_action\<lparr>execContext := Some (example_Context\<lparr>Context.Result := Some remote_failure\<rparr>)\<rparr>,
            \<lparr>raceResult.res = Some remote_failure, oe = None, t = canceled\<rparr>, closed_at_once)
   \<and> \<not> IsOk remote_failure
   \<and> runRemoteRace (\<lambda>x. x) (failing_rexec\<lparr>NewContext := \<lambda>c. Inl (errorString ''no connection'')\<rparr>)
        remote_env_sibling_done ''/tmp/racing/id1'' 1000000000 example_action
     = Inr (example_action\<lparr>execContext := None\<rparr>,
            \<lparr>raceResult.res = Some (NewLocalErrorResult (errorString ''no connection'')), oe = None,
             t = canceled\<rparr>, closed_at_once)
   \<and> runRemoteRace (\<lambda>x. x)
        (failing_rexec\<lparr>GetCachedResult := \<lambda>c. c\<lparr>Context.Result := Some remote_failure\<rparr>\<rparr>)
        remote_env_sibling_done ''/tmp/racing/id1'' 1000000000 example_action
     = Inr (example_action\<lparr>execContext := Some (example_Context\<lparr>Context.Result := Some remote_failure\<rparr>)\<rparr>,
            \<lparr>raceResult.res = Some remote_failure, oe = None, t = canceled\<rparr>,
            closed_after_holdoff (holdoff (\<lambda>x. x) (1/2) (Inr 100000000) 1000000000))
   \<and> runRemoteRace (\<lambda>x. x)
        (cached_rexec\<lparr>DownloadOutputs := \<lambda>dir c. c\<lparr>Context.Result := Some remote_failure\<rparr>\<rparr>)
        remote_env_racing ''/tmp/racing/id1'' 1000000000 example_action
     = Inr (example_action\<lparr>execContext := Some (example_Context\<lparr>Context.Result := Some remote_failure\<rparr>)\<rparr>,
            \<lparr>raceResult.res = Some remote_failure, oe = Some \<lparr>Stdout = [], Stderr = ''remote failed''\<rparr>,
             t = canceled\<rparr>,
            closed_after_holdoff (holdoff (\<lambda>x. x) (1/2) (Inr 100000000) 1000000000))
   \<and> race posix_host example_logger (\<lambda>x. x) failing_rexec example_os_env example_race_env
        [remote_sends remote_env_racing] 0 1000000000 (example_action, Map.empty) = Blocked
   \<and> (\<exists>a' rr sl. runRemoteRace (\<lambda>x. x)
                      (cached_rexec\<lparr>DownloadOutputs := \<lambda>dir c. c\<lparr>Context.Result := Some cache_hit\<rparr>\<rparr>)
                      remote_env_cache_hit ''/tmp/racing/id1''
                      1000000000 example_action = Inr (a', rr, sl)
          \<and> t rr = remote \<and> raceResult.res rr = Some cache_hit \<and> IsOk cache_hit)"
proof -
  let ?a1 = "example_action\<lparr>execContext := Some (example_Context\<lparr>Context.Result := Some remote_failure\<rparr>)\<rparr>"
  let ?noctx = "failing_rexec\<lparr>NewContext := \<lambda>c. Inl (errorString ''no connection'')\<rparr>"
  let ?nolookup = "failing_rexec\<lparr>GetCachedResult := \<lambda>c. c\<lparr>Context.Result := Some remote_failure\<rparr>\<rparr>"
  let ?nodl = "cached_rexec\<lparr>DownloadOutputs := \<lambda>dir c. c\<lparr>Context.Result := Some remote_failure\<rparr>\<rparr>"
  have nok: "\<not> IsOk remote_failure" "IsOk cache_hit"
    by (simp_all add: remote_failure_def cache_hit_def IsOk_def)
  have s1: "attempt posix_host example_logger (\<lambda>x. x) failing_rexec 1000000000
              (remote_sends remote_env_racing) example_action
            = Inr (?a1, recv \<lparr>raceResult.res = Some remote_failure, oe = None, t = canceled\<rparr>)"
    by (simp add: runRemoteRace_def runRemoteRace_download_def failing_rexec_def
          remote_env_racing_def example_Context_def remote_failure_def IsOk_def Let_def)
  have exec: "NewContext failing_rexec (rcmd example_action) = Inr example_Context
      \<and> Context.Result (GetCachedResult failing_rexec example_Context) = None
      \<and> Context.Result (ExecuteRemotely failing_rexec (GetCachedResult failing_rexec example_Context))
          = Some remote_failure"
    by (simp add: failing_rexec_def example_Context_def)
  have noctx: "NewContext ?noctx (rcmd example_action) = Inl (errorString ''no connection'')"
    by simp
  have nolookup: "NewContext ?nolookup (rcmd example_action) = Inr example_Context
      \<and> Context.Result (GetCachedResult ?nolookup example_Context) = Some remote_failure"
    by (simp add: failing_rexec_def)
  have nodl: "NewContext ?nodl (rcmd example_action) = Inr example_Context
      \<and> Context.Result (GetCachedResult ?nodl example_Context) = Some cache_hit
      \<and> Context.Result (DownloadOutputs ?nodl ''/tmp/racing/id1''
            (GetCachedResult ?nodl example_Context)) = Some remote_failure"
    by (simp add: cached_rexec_def)
  have ctx: "ExecuteRemotely failing_rexec (GetCachedResult failing_rexec example_Context)
             = example_Context\<lparr>Context.Result := Some remote_failure\<rparr>"
      "GetCachedResult ?nolookup example_Context = example_Context\<lparr>Context.Result := Some remote_failure\<rparr>"
      "DownloadOutputs ?nodl ''/tmp/racing/id1'' (GetCachedResult ?nodl example_Context)
         = example_Context\<lparr>Context.Result := Some remote_failure\<rparr>"
    by (simp_all add: failing_rexec_def cached_rexec_def)
  have env: "cCtx_done_after_execute remote_env_racing = False"
      "cCtx_done_after_download remote_env_racing = False"
      "PercentileDownloadLatency remote_env_racing = Inr 100000000"
      "PercentileDownloadLatency remote_env_sibling_done = Inr 100000000"
      "rOE remote_env_racing = \<lparr>Stdout = [], Stderr = ''remote failed''\<rparr>"
      "racingBias example_action = 1/2"
      "createTmpDir_err example_race_env = None"
    by (simp_all add: remote_env_racing_def remote_env_sibling_done_def example_action_def
          example_race_env_def)
  note A = remote_failure_is_canceled[where sdk = failing_rexec and a = example_action
      and ?ec0.0 = example_Context and r = remote_failure and env = remote_env_racing
      and rnd = "\<lambda>x. x" and tmpDir = "''/tmp/racing/id1''" and maxHoldoff = 1000000000
      and renv = example_race_env and h = posix_host and lg = example_logger
      and ?s1.0 = "remote_sends remote_env_racing" and b = example_action and ?b1.0 = ?a1
      and w = "\<lparr>raceResult.res = Some remote_failure, oe = None, t = canceled\<rparr>"
      and os = example_os_env and steps = "[]" and nf = 0 and m = Map.empty]
  note B = remote_failure_is_canceled[where sdk = ?noctx and a = example_action
      and e = "errorString ''no connection''" and env = remote_env_sibling_done
      and rnd = "\<lambda>x. x" and tmpDir = "''/tmp/racing/id1''" and maxHoldoff = 1000000000]
  note C = remote_failure_is_canceled[where sdk = ?nolookup and a = example_action
      and ?ec0.0 = example_Context and r = remote_failure and env = remote_env_sibling_done
      and rnd = "\<lambda>x. x" and tmpDir = "''/tmp/racing/id1''" and maxHoldoff = 1000000000]
  note D = remote_failure_is_canceled[where sdk = ?nodl and a = example_action
      and ?ec0.0 = example_Context and r = cache_hit and r' = remote_failure
      and ec = "GetCachedResult ?nodl example_Context" and env = remote_env_racing
      and rnd = "\<lambda>x. x" and tmpDir = "''/tmp/racing/id1''" and maxHoldoff = 1000000000]
  have a: "runRemoteRace (\<lambda>x. x) failing_rexec remote_env_racing ''/tmp/racing/id1'' 1000000000 example_action
     = Inr (?a1, \<lparr>raceResult.res = Some remote_failure, oe = None, t = canceled\<rparr>, closed_at_once)"
    using A exec nok ctx(1) env by simp
  have a': "race posix_host example_logger (\<lambda>x. x) failing_rexec example_os_env example_race_env
        [remote_sends remote_env_racing] 0 1000000000 (example_action, Map.empty) = Blocked"
    using A s1 env by simp
  have b: "runRemoteRace (\<lambda>x. x) ?noctx remote_env_sibling_done ''/tmp/racing/id1'' 1000000000 example_action
     = Inr (example_action\<lparr>execContext := None\<rparr>,
            \<lparr>raceResult.res = Some (NewLocalErrorResult (errorString ''no connection'')), oe = None,
             t = canceled\<rparr>, closed_at_once)"
    using B noctx by blast
  have c: "runRemoteRace (\<lambda>x. x) ?nolookup remote_env_sibling_done ''/tmp/racing/id1'' 1000000000 example_action
     = Inr (?a1, \<lparr>raceResult.res = Some remote_failure, oe = None, t = canceled\<rparr>,
            closed_after_holdoff (holdoff (\<lambda>x. x) (1/2) (Inr 100000000) 1000000000))"
    using C nolookup nok ctx(2) env by simp
  have d: "runRemoteRace (\<lambda>x. x) ?nodl remote_env_racing ''/tmp/racing/id1'' 1000000000 example_action
     = Inr (?a1, \<lparr>raceResult.res = Some remote_failure, oe = Some \<lparr>Stdout = [], Stderr = ''remote failed''\<rparr>,
             t = canceled\<rparr>,
            closed_after_holdoff (holdoff (\<lambda>x. x) (1/2) (Inr 100000000) 1000000000))"
    using D nodl nok ctx(3) env by simp
  let ?okdl = "cached_rexec\<lparr>DownloadOutputs := \<lambda>dir c. c\<lparr>Context.Result := Some cache_hit\<rparr>\<rparr>"
  have run: "runRemoteRace (\<lambda>x. x) ?okdl remote_env_cache_hit ''/tmp/racing/id1''
                      1000000000 example_action
             = Inr (example_action\<lparr>execContext := Some (example_Context\<lparr>Context.Result := Some cache_hit\<rparr>)\<rparr>,
                    \<lparr>raceResult.res = Some cache_hit, oe = Some \<lparr>Stdout = [], Stderr = []\<rparr>, t = remote\<rparr>,
                    closed_after_holdoff (holdoff (\<lambda>x. x) (1/2) (Inr 100000000) 1000000000))"
    by (simp add: runRemoteRace_def runRemoteRace_download_def cached_rexec_def
          remote_env_cache_hit_def example_Context_def cache_hit_def IsOk_def Let_def
          example_action_def)
  note E = remote_failure_is_canceled[where sdk = ?okdl and a = example_action
      and env = remote_env_cache_hit and rnd = "\<lambda>x. x" and tmpDir = "''/tmp/racing/id1''"
      and maxHoldoff = 1000000000]
  have "(\<forall>c. Context.Result (ExecuteRemotely ?okdl c) \<noteq> None)
      \<and> (\<forall>c. Context.Result (DownloadOutputs ?okdl ''/tmp/racing/id1'' c) \<noteq> None)"
    by (simp add: cached_rexec_def)
  with E run have f: "\<exists>a' rr sl. runRemoteRace (\<lambda>x. x) ?okdl remote_env_cache_hit ''/tmp/racing/id1''
                      1000000000 example_action = Inr (a', rr, sl)
          \<and> t rr = remote \<and> raceResult.res rr = Some cache_hit \<and> IsOk cache_hit"
    by (simp add: nok)
  show ?thesis
    using a a' b c d f nok by blast
qed

text \<open>
  Claim C4 as it is stated fails when the sibling scope is already done after remote
  execution: the remote result is not ok, and the outcome of kind canceled carries no
  result.
\<close>

theorem remote_failure_without_result_counterexample:
  "Context.Result (ExecuteRemotely failing_rexec (GetCachedResult failing_rexec example_Context))
     = Some remote_failure
   \<and> \<not> IsOk remote_failure
   \<and> runRemoteRace (\<lambda>x. x) failing_rexec remote_env_sibling_done ''/tmp/racing/id1'' 1000000000
        example_action
     = Inr (example_action\<lparr>execContext := Some (example_Context\<lparr>Context.Result := Some remote_failure\<rparr>)\<rparr>,
            \<lparr>raceResult.res = None, oe = None, t = canceled\<rparr>, closed_at_once)"
  by (simp add: runRemoteRace_def failing_rexec_def remote_env_sibling_done_def example_Context_def
        remote_failure_def IsOk_def Let_def)

section \<open>The hold-off\<close>

lemma int64_id: "- (2 ^ 63) \<le> x \<Longrightarrow> x < 2 ^ 63 \<Longrightarrow> int64 x = x"
  by (simp add: int64_def)

lemma Milliseconds_nonneg:
  assumes "0 \<le> d"
  shows "Milliseconds d = d div 1000000" "0 \<le> Milliseconds d" "Milliseconds d * 1000000 \<le> d"
proof -
  show m: "Milliseconds d = d div 1000000"
    using assms by (cases "d = 0") (simp_all add: Milliseconds_def quot_def)
  show "0 \<le> Milliseconds d" using assms m by simp
  show "Milliseconds d * 1000000 \<le> d" using m by simp
qed

lemma int64_of_float64_of_int:
  "- (2 ^ 63) \<le> n \<Longrightarrow> n < 2 ^ 63 \<Longrightarrow> int64_of_float64 (of_int n) = Some n"
  by (simp add: int64_of_float64_def)

lemma holdoff_exact:
  assumes "0 \<le> x" "rnd (bias * 2) = x"
    and "rnd (rnd (of_int (Milliseconds dl)) * x) = y" "0 \<le> y"
    and "\<lfloor>y\<rfloor> * 1000000 < 2 ^ 63"
  shows "holdoff rnd bias (Inr dl) maxHoldoff = Some (min (\<lfloor>y\<rfloor> * Millisecond) maxHoldoff)"
proof -
  have f: "0 \<le> \<lfloor>y\<rfloor>" using assms(4) by simp
  then have "\<lfloor>y\<rfloor> \<le> \<lfloor>y\<rfloor> * 1000000" by simp
  with assms(5) have r: "\<lfloor>y\<rfloor> < 2 ^ 63" by linarith
  have c: "int64_of_float64 y = Some \<lfloor>y\<rfloor>"
    using assms(4) f r by (simp add: int64_of_float64_def Let_def)
  have "0 \<le> \<lfloor>y\<rfloor> * 1000000" using f by simp
  then have w: "int64 (\<lfloor>y\<rfloor> * 1000000) = \<lfloor>y\<rfloor> * 1000000"
    using assms(5) by (intro int64_id) linarith+
  show ?thesis
    using assms(2,3) c w by (simp add: holdoff_def Millisecond_def min_def)
qed

lemma holdoff_exact_int:
  assumes "0 \<le> x" "rnd (bias * 2) = x"
    and "rnd (rnd (of_int (Milliseconds dl)) * x) = of_int n" "0 \<le> n"
    and "n * 1000000 < 2 ^ 63"
  shows "holdoff rnd bias (Inr dl) maxHoldoff = Some (min (n * Millisecond) maxHoldoff)"
  using holdoff_exact[of x rnd bias dl "of_int n" maxHoldoff] assms by simp

text \<open>
  Claim C2, as amended. Let \<open>float64\<close> represent the integers below \<open>2^53\<close> exactly, and
  let the forecast and \<open>maxHoldoff\<close> be non-negative durations. With the forecast taken
  in whole milliseconds: \<open>racingBias = 0.5\<close> gives the forecast, clamped to \<open>maxHoldoff\<close>;
  \<open>racingBias = 0\<close> gives a zero hold-off; \<open>racingBias = 1\<close> gives twice the forecast,
  clamped (for a forecast below \<open>2^62\<close> nanoseconds, so that doubling does not overflow).
  When the forecast fails, \<open>maxHoldoff\<close> takes the forecast's place and is scaled and
  clamped like a forecast. For any other bias whose products \<open>float64\<close> represents
  exactly, the hold-off is the product of the forecast in whole milliseconds and
  \<open>2 * racingBias\<close>, with its fraction of a millisecond discarded, clamped to
  \<open>maxHoldoff\<close>. The hold-off never exceeds \<open>maxHoldoff\<close>.
\<close>

theorem holdoff_value:
  assumes rnd: "\<And>k::int. \<bar>k\<bar> < 2 ^ 53 \<Longrightarrow> rnd (of_int k) = of_int k"
    and dl: "0 \<le> dl" "dl < 2 ^ 63"
    and mx: "0 \<le> maxHoldoff" "maxHoldoff < 2 ^ 63"
  shows "holdoff rnd (1/2) (Inr dl) maxHoldoff = Some (min (Milliseconds dl * Millisecond) maxHoldoff)
     \<and> holdoff rnd 0 (Inr dl) maxHoldoff = Some 0
     \<and> (dl < 2 ^ 62 \<longrightarrow>
          holdoff rnd 1 (Inr dl) maxHoldoff = Some (min (2 * Milliseconds dl * Millisecond) maxHoldoff))
     \<and> holdoff rnd bias (Inl e) maxHoldoff = holdoff rnd bias (Inr maxHoldoff) maxHoldoff
     \<and> (0 \<le> bias \<and> rnd (bias * 2) = bias * 2
          \<and> rnd (of_int (Milliseconds dl) * (bias * 2)) = of_int (Milliseconds dl) * (bias * 2)
          \<and> \<lfloor>of_int (Milliseconds dl) * (bias * 2)\<rfloor> * Millisecond < 2 ^ 63 \<longrightarrow>
          holdoff rnd bias (Inr dl) maxHoldoff
            = Some (min (\<lfloor>of_int (Milliseconds dl) * (bias * 2)\<rfloor> * Millisecond) maxHoldoff))
     \<and> (\<forall>sl. holdoff rnd bias fc maxHoldoff = Some sl \<longrightarrow> sl \<le> maxHoldoff)"
proof -
  let ?ms = "Milliseconds dl"
  have ms: "0 \<le> ?ms" "?ms * 1000000 \<le> dl"
    using Milliseconds_nonneg[OF dl(1)] by simp_all
  then have ms53: "\<bar>?ms\<bar> < 2 ^ 53" "\<bar>2 * ?ms\<bar> < 2 ^ 53"
    using dl(2) by simp_all
  have rms: "rnd (of_int ?ms) = of_int ?ms"
    using rnd[OF ms53(1)] .
  have r2ms: "rnd (of_int ?ms * 2) = of_int (2 * ?ms)"
    using rnd[OF ms53(2)] by (simp add: mult.commute)
  have r0: "rnd 0 = 0" using rnd[of 0] by simp
  have r1: "rnd 1 = 1" using rnd[of 1] by simp
  have r2: "rnd 2 = 2" using rnd[of 2] by simp
  have half: "holdoff rnd (1/2) (Inr dl) maxHoldoff = Some (min (?ms * Millisecond) maxHoldoff)"
    using holdoff_exact_int[of 1 rnd "1/2" dl ?ms maxHoldoff] r1 rms ms dl(2)
    by simp
  have zero: "holdoff rnd 0 (Inr dl) maxHoldoff = Some 0"
    using holdoff_exact_int[of 0 rnd 0 dl 0 maxHoldoff] r0 mx(1)
    by simp
  have one: "holdoff rnd 1 (Inr dl) maxHoldoff = Some (min (2 * ?ms * Millisecond) maxHoldoff)"
    if "dl < 2 ^ 62"
    using holdoff_exact_int[of 2 rnd 1 dl "2 * ?ms" maxHoldoff] r2 rms r2ms ms that
    by simp
  have err: "holdoff rnd bias (Inl e) maxHoldoff = holdoff rnd bias (Inr maxHoldoff) maxHoldoff"
    by (simp add: holdoff_def)
  have gen: "holdoff rnd bias (Inr dl) maxHoldoff
            = Some (min (\<lfloor>of_int ?ms * (bias * 2)\<rfloor> * Millisecond) maxHoldoff)"
    if "0 \<le> bias" "rnd (bias * 2) = bias * 2"
       "rnd (of_int ?ms * (bias * 2)) = of_int ?ms * (bias * 2)"
       "\<lfloor>of_int ?ms * (bias * 2)\<rfloor> * Millisecond < 2 ^ 63"
    using holdoff_exact[of "bias * 2" rnd bias dl "of_int ?ms * (bias * 2)" maxHoldoff] that rms ms(1)
    by (simp add: Millisecond_def)
  have clamp: "sl \<le> maxHoldoff" if "holdoff rnd bias fc maxHoldoff = Some sl" for sl
    using that by (auto simp: holdoff_def Let_def split: option.splits if_splits)
  show ?thesis
    using half zero one err gen clamp by blast
qed

theorem holdoff_value_witness:
  "holdoff (\<lambda>x. x) (1/2) (Inr 100000000) 1000000000 = Some 100000000
   \<and> holdoff (\<lambda>x. x) 0 (Inr 100000000) 1000000000 = Some 0
   \<and> holdoff (\<lambda>x. x) 1 (Inr 100000000) 1000000000 = Some 200000000
   \<and> holdoff (\<lambda>x. x) 1 (Inr 700000000) 1000000000 = Some 1000000000
   \<and> holdoff (\<lambda>x. x) (1/2) (Inl context_DeadlineExceeded) 1000000000 = Some 1000000000"
proof -
  have r: "\<And>k::int. \<bar>k\<bar> < 2 ^ 53 \<Longrightarrow> (\<lambda>x::real. x) (of_int k) = of_int k" by simp
  have m1: "Milliseconds 100000000 = 100" "Milliseconds 700000000 = 700"
      "Milliseconds 1000000000 = 1000"
    by (simp_all add: Milliseconds_def quot_def)
  show ?thesis
    using holdoff_value[of "\<lambda>x. x" 100000000 1000000000 "1/2" context_DeadlineExceeded "Inr 0", OF r]
      holdoff_value[of "\<lambda>x. x" 700000000 1000000000 "1/2" context_DeadlineExceeded "Inr 0", OF r]
      holdoff_value[of "\<lambda>x. x" 1000000000 1000000000 "1/2" context_DeadlineExceeded "Inr 0", OF r]
    by (simp add: m1 Millisecond_def)
qed

text \<open>
  Claim C2 as it is stated fails where the product is not a whole number of
  milliseconds: for a forecast of 3 ms and \<open>racingBias = 0.25\<close> the hold-off is 1 ms, not
  the 1.5 ms that 3 ms times \<open>2 * 0.25\<close> comes to (every number here is a \<open>float64\<close>, so
  rounding plays no part).
\<close>

theorem holdoff_truncates_counterexample:
  "holdoff (\<lambda>x. x) (1/4) (Inr 3000000) 1000000000 = Some 1000000
   \<and> real_of_int 1000000 \<noteq> real_of_int (Milliseconds 3000000 * Millisecond) * (2 * (1/4))"
  by (simp add: holdoff_def Milliseconds_def quot_def int64_of_float64_def int64_def Millisecond_def)

section \<open>Restoring modification times\<close>

lemma restore_loop_untouched:
  assumes "p \<notin> output_path h c ` fst ` set outDigests"
  shows "snd (restore_loop h os c pre outDigests (cache, mtimes)) p = mtimes p
       \<and> fst (restore_loop h os c pre outDigests (cache, mtimes)) p = cache p"
  using assms
proof (induction outDigests arbitrary: cache mtimes)
  case Nil
  then show ?case by simp
next
  case (Cons x xs)
  obtain out d where x: "x = (out, d)" by (cases x)
  from Cons.prems x have p: "p \<noteq> Join h [ExecRoot c, WorkingDir c, out]"
      "p \<notin> output_path h c ` fst ` set xs"
    by (auto simp: output_path_def)
  show ?case
    using Cons.IH[OF p(2)] p(1) x
    by (auto simp: Let_def split: option.splits)
qed

text \<open>
  When no \<open>os.Chtimes\<close> and no \<open>fmc.Update\<close> fails, and no two outputs have the same path,
  every output whose snapshot exists with the digest the execution context reports has
  its modification time of before the execution, on disk and in the cache.
\<close>

lemma restore_loop_restores_when_nothing_fails:
  assumes nofail: "\<forall>p. Chtimes_err os p = None \<and> fmc_Update_err os p = None"
    and dist: "distinct (map (\<lambda>x. output_path h c (fst x)) outDigests)"
    and mem: "(out, d) \<in> set outDigests"
    and snap: "pre out = Some fInfo" "Digest fInfo = d"
  shows "snd (restore_loop h os c pre outDigests (cache, mtimes)) (output_path h c out) = Some (MTime fInfo)
       \<and> Digest (fst (restore_loop h os c pre outDigests (cache, mtimes)) (output_path h c out)) = Digest fInfo
       \<and> MTime (fst (restore_loop h os c pre outDigests (cache, mtimes)) (output_path h c out)) = MTime fInfo"
  using dist mem
proof (induction outDigests arbitrary: cache mtimes)
  case Nil
  then show ?case by simp
next
  case (Cons x xs)
  obtain out' d' where x: "x = (out', d')" by (cases x)
  show ?case
  proof (cases "(out, d) \<in> set xs")
    case True
    from Cons.prems(1) have "distinct (map (\<lambda>x. output_path h c (fst x)) xs)" by simp
    from Cons.IH[OF this True] show ?thesis
      using x nofail by (auto simp: Let_def split: option.splits)
  next
    case False
    with Cons.prems(2) x have eq: "out' = out" "d' = d" by auto
    from Cons.prems(1) x eq have "output_path h c out \<notin> output_path h c ` fst ` set xs"
      by (auto simp: image_iff)
    from restore_loop_untouched[OF this] show ?thesis
      using x eq snap nofail by (simp add: Let_def output_path_def[symmetric])
  qed
qed

lemma example_output_paths: "Join posix_host [''/w'', ''out'', ''a.o''] = ''/w/out/a.o''"
  "Join posix_host [''/w'', ''out'', ''b.o''] = ''/w/out/b.o''"
  by (simp_all add: posix_host_def Join_posix_def Clean_posix_def)

lemma restore_loop_returns_at_failure:
  assumes "preExecOutsInfo out = Some fInfo" "Digest fInfo = d"
    and "Chtimes_err os (Join h [ExecRoot c, WorkingDir c, out]) = Some e"
  shows "restore_loop h os c preExecOutsInfo ((out, d) # outDigests) st = st"
  using assms by (cases st) simp

text \<open>
  Claim C6 at the failing input. Two outputs, \<open>a.o\<close> and \<open>b.o\<close>, are unchanged (their
  snapshots exist and the digests are equal), the loop visits \<open>a.o\<close> first, and
  \<open>os.Chtimes\<close> fails for \<open>a.o\<close> only. The function returns nil at once: \<open>b.o\<close> keeps the
  modification time 999 the move gave it instead of its time 200 of before the
  execution, and the cache is not updated. Were \<open>os.Chtimes\<close> to succeed, both would be
  restored.
\<close>

theorem restore_stops_at_first_failure:
  "restoreUnchangedOutputMtimes posix_host cached_rexec chtimes_fails_first
     (getPreExecOutsInfo example_race_env) (example_action, moved_outputs)
     = Inr (None, example_action, moved_outputs)
   \<and> moved_outputs ''/w/out/b.o'' = Some 999
   \<and> map_option MTime (getPreExecOutsInfo example_race_env ''b.o'') = Some 200
   \<and> map_option Digest (getPreExecOutsInfo example_race_env ''b.o'') = Some (''hb'', 2)
   \<and> GetOutputFileDigests cached_rexec example_Context = Inr [(''a.o'', (''ha'', 1)), (''b.o'', (''hb'', 2))]
   \<and> Chtimes_err chtimes_fails_first ''/w/out/b.o'' = None
   \<and> snd (snd (projr (restoreUnchangedOutputMtimes posix_host cached_rexec example_os_env
          (getPreExecOutsInfo example_race_env) (example_action, moved_outputs))))
        = [''/w/out/a.o'' \<mapsto> 100, ''/w/out/b.o'' \<mapsto> 200]"
  by (simp add: restoreUnchangedOutputMtimes_def example_action_def cached_rexec_def
        example_race_env_def chtimes_fails_first_def example_os_env_def moved_outputs_def example_output_paths
        example_Context_def Let_def)

text \<open>The same through \<open>race\<close>, with remote the winner: the action does not fail.\<close>

lemma race_leaves_unchanged_output_unrestored:
  "race posix_host example_logger (\<lambda>x. x) cached_rexec chtimes_fails_first example_race_env
     [remote_sends remote_env_cache_hit, local_gives_up] 0 1000000000 (example_action, Map.empty)
     = Returned (example_action\<lparr>
           execContext := Some (example_Context\<lparr>Context.Result := Some cache_hit\<rparr>),
           rec := Some \<lparr>LocalMetadata = Some empty_LocalMetadata,
                    RemoteMetadata = Some \<lparr>CacheHit = False, RemoteMetadata.Result = Some cache_hit,
                                            RemoteMetadata.ActionDigest = ''ad''\<rparr>\<rparr>,
           res := Some cache_hit,
           oe := Some \<lparr>Stdout = [], Stderr = []\<rparr>\<rparr>) 0 moved_outputs"
proof -
  let ?a1 = "example_action\<lparr>execContext := Some (example_Context\<lparr>Context.Result := Some cache_hit\<rparr>)\<rparr>"
  have s1: "runRemoteRace (\<lambda>x. x) cached_rexec remote_env_cache_hit
              (Join posix_host [racingTmp example_action, ExecutionID (cmd example_action)])
              1000000000 example_action
            = Inr (?a1, \<lparr>raceResult.res = Some cache_hit, oe = Some \<lparr>Stdout = [], Stderr = []\<rparr>,
                         t = remote\<rparr>,
                   closed_after_holdoff (holdoff (\<lambda>x. x) (racingBias example_action)
                     (Inr 100000000) 1000000000))"
    by (simp add: runRemoteRace_def runRemoteRace_download_def cached_rexec_def
          remote_env_cache_hit_def example_Context_def cache_hit_def IsOk_def Let_def)
  have sel: "race_selects posix_host example_logger (\<lambda>x. x) cached_rexec 1000000000
               [remote_sends remote_env_cache_hit, local_gives_up] 0 example_action
             = Inr (winner \<lparr>raceResult.res = Some cache_hit, oe = Some \<lparr>Stdout = [], Stderr = []\<rparr>,
                             t = remote\<rparr> 0 True, ?a1)"
    by (simp add: race_selects_def s1)
  have tmp: "createTmpDir_err example_race_env = None"
    by (simp add: example_race_env_def)
  show ?thesis
    by (simp add: race_def sel tmp)
       (simp add: race_finalize_def restoreUnchangedOutputMtimes_def example_action_def
        cached_rexec_def example_race_env_def chtimes_fails_first_def moved_outputs_def
        example_output_paths example_Context_def Let_def example_logger_def)
qed

section \<open>Duplication\<close>

lemma is_action_E: "is_action x \<Longrightarrow> \<exists>c f r ro lo sink v. x = Some (action_obj c f r ro lo sink v)"
  by (cases x rule: is_action.cases) auto

lemma LocalMetadata_of_E: "LocalMetadata_of x = Some l \<Longrightarrow> \<exists>rm. x = Some (LogRecord_obj (Some l) rm)"
  by (cases x rule: LocalMetadata_of.cases) auto

lemma is_LocalMetadata_E: "is_LocalMetadata x \<Longrightarrow> \<exists>et env lbl. x = Some (LocalMetadata_obj et env lbl)"
  by (cases x rule: is_LocalMetadata.cases) auto

lemma source_ok_is:
  assumes "source_ok h a"
  shows "\<exists>tcmd tf tro tlo v ri. source_is h a tcmd tf tro tlo v ri"
proof -
  from assms obtain c f r ro lo sink v where a: "cells h a = Some (action_obj c f r ro lo sink v)"
    using is_action_E[of "cells h a"] by (auto simp: source_ok_def)
  with assms obtain tcmd tf tro tlo where v: "copy_Command h c = Some tcmd" "copy_Forecast h f = Some tf"
      "copy_RemoteExecutionOptions h ro = Some tro" "copy_LocalExecutionOptions h lo = Some tlo"
    by (auto simp: source_ok_def values_of_def)
  show ?thesis
  proof (cases r)
    case None
    with a v have "source_is h a tcmd tf tro tlo v None"
      by (simp add: source_is_def)
    then show ?thesis by blast
  next
    case (Some ra)
    with assms a obtain l where l: "LocalMetadata_of (cells h ra) = Some l" "is_LocalMetadata (cells h l)"
      by (auto simp: source_ok_def split: option.splits)
    then obtain rm et env lbl where "cells h ra = Some (LogRecord_obj (Some l) rm)"
        "cells h l = Some (LocalMetadata_obj et env lbl)"
      using LocalMetadata_of_E is_LocalMetadata_E by metis
    with a v Some have "source_is h a tcmd tf tro tlo v (Some (env, lbl))"
      by (auto simp: source_is_def)
    then show ?thesis by blast
  qed
qed

lemma copy_frame:
  assumes "heap_ok h" "\<forall>p<next_addr h. cells h' p = cells h p"
  shows "copy_Command h c = Some x \<Longrightarrow> copy_Command h' c = Some x"
    and "copy_Forecast h f = Some y \<Longrightarrow> copy_Forecast h' f = Some y"
    and "copy_RemoteExecutionOptions h ro = Some z \<Longrightarrow> copy_RemoteExecutionOptions h' ro = Some z"
    and "copy_LocalExecutionOptions h lo = Some w \<Longrightarrow> copy_LocalExecutionOptions h' lo = Some w"
proof -
  have k: "cells h q = Some obj \<Longrightarrow> cells h' q = Some obj" for q obj
    using assms by (auto simp: heap_ok_def)
  show "copy_Command h c = Some x \<Longrightarrow> copy_Command h' c = Some x"
    by (cases c) (auto simp: copy_Command_def dest!: k split: option.splits object.splits)
  show "copy_Forecast h f = Some y \<Longrightarrow> copy_Forecast h' f = Some y"
    by (cases f) (auto simp: copy_Forecast_def dest!: k split: option.splits object.splits)
  show "copy_RemoteExecutionOptions h ro = Some z \<Longrightarrow> copy_RemoteExecutionOptions h' ro = Some z"
    by (cases ro) (auto simp: copy_RemoteExecutionOptions_def dest!: k split: option.splits object.splits)
  show "copy_LocalExecutionOptions h lo = Some w \<Longrightarrow> copy_LocalExecutionOptions h' lo = Some w"
    by (cases lo) (auto simp: copy_LocalExecutionOptions_def dest!: k split: option.splits object.splits)
qed

lemma source_is_frame:
  assumes "heap_ok h" "\<forall>p<next_addr h. cells h' p = cells h p"
    and "source_is h a tcmd tf tro tlo v ri"
  shows "source_is h' a tcmd tf tro tlo v ri"
proof -
  have k: "cells h q = Some obj \<Longrightarrow> cells h' q = Some obj" for q obj
    using assms(1,2) by (auto simp: heap_ok_def)
  from assms(3) obtain c f r ro lo sink where s:
      "cells h a = Some (action_obj c f r ro lo sink v)"
      "copy_Command h c = Some tcmd" "copy_Forecast h f = Some tf"
      "copy_RemoteExecutionOptions h ro = Some tro"
      "copy_LocalExecutionOptions h lo = Some tlo"
      "(case ri of
              None \<Rightarrow> r = None
            | Some (env, lbl) \<Rightarrow>
                (\<exists>ra l rm et. r = Some ra \<and> cells h ra = Some (LogRecord_obj (Some l) rm)
                    \<and> cells h l = Some (LocalMetadata_obj et env lbl)))"
    unfolding source_is_def by blast
  have r: "(case ri of
              None \<Rightarrow> r = None
            | Some (env, lbl) \<Rightarrow>
                (\<exists>ra l rm et. r = Some ra \<and> cells h' ra = Some (LogRecord_obj (Some l) rm)
                    \<and> cells h' l = Some (LocalMetadata_obj et env lbl)))"
    using s(6) by (cases ri) (auto dest!: k)
  show ?thesis
    unfolding source_is_def
    using k[OF s(1)] copy_frame[OF assms(1,2)] s(2-5) r by blast
qed

lemma dup_at_frame:
  assumes "dup_at h tcmd tf tro tlo v ri now b d" "b + 9 \<le> m \<or> ri = None \<and> b + 7 \<le> m"
    and "\<forall>p<m. cells h' p = cells h p"
  shows "dup_at h' tcmd tf tro tlo v ri now b d"
  using assms by (cases ri) (auto simp: dup_at_def)

lemma duplicate_one_step:
  assumes ok: "heap_ok h" and src: "source_is h a tcmd tf tro tlo v ri"
  shows "\<exists>d h'. duplicate_one now a h = Inr (d, h')
           \<and> next_addr h' = next_addr h + (case ri of None \<Rightarrow> 7 | Some x \<Rightarrow> 9)
           \<and> (\<forall>p. p < next_addr h \<or> next_addr h' \<le> p \<longrightarrow> cells h' p = cells h p)
           \<and> dup_at h' tcmd tf tro tlo v ri now (next_addr h) d"
proof -
  from src obtain c f r ro lo sink where s:
      "cells h a = Some (action_obj c f r ro lo sink v)"
      "copy_Command h c = Some tcmd" "copy_Forecast h f = Some tf"
      "copy_RemoteExecutionOptions h ro = Some tro"
      "copy_LocalExecutionOptions h lo = Some tlo"
      "(case ri of
              None \<Rightarrow> r = None
            | Some (env, lbl) \<Rightarrow>
                (\<exists>ra l rm et. r = Some ra \<and> cells h ra = Some (LogRecord_obj (Some l) rm)
                    \<and> cells h l = Some (LocalMetadata_obj et env lbl)))"
    unfolding source_is_def by blast
  show ?thesis
  proof (cases ri)
    case None
    with s(6) have r: "r = None" by simp
    show ?thesis
      using s(1-5) r None
      by (simp add: duplicate_one_def new_def store_def new_LocalMetadata_def dup_at_def)
  next
    case (Some el)
    obtain env lbl where el: "el = (env, lbl)" by (cases el)
    with s(6) Some obtain ra l rm et where r: "r = Some ra"
        "cells h ra = Some (LogRecord_obj (Some l) rm)"
        "cells h l = Some (LocalMetadata_obj et env lbl)"
      by auto
    have lt: "ra < next_addr h" "l < next_addr h"
      using ok r by (auto simp: heap_ok_def)
    show ?thesis
      using s(1-5) r Some el lt
      by (simp add: duplicate_one_def new_def store_def new_LocalMetadata_def dup_at_def)
  qed
qed

lemma duplicate_loop_blocks:
  assumes "heap_ok h" "source_is h a tcmd tf tro tlo v ri"
  shows "\<exists>ds h'. duplicate_loop now a i k acc h = Inr (acc @ ds, h')
           \<and> length ds = k
           \<and> heap_ok h'
           \<and> next_addr h' = next_addr h + k * (case ri of None \<Rightarrow> 7 | Some x \<Rightarrow> 9)
           \<and> (\<forall>p<next_addr h. cells h' p = cells h p)
           \<and> (\<forall>m<k. dup_at h' tcmd tf tro tlo v ri (now (i + m))
                        (next_addr h + m * (case ri of None \<Rightarrow> 7 | Some x \<Rightarrow> 9)) (ds ! m))"
  using assms
proof (induction k arbitrary: i acc h)
  case 0
  then show ?case by simp
next
  case (Suc k)
  let ?K = "case ri of None \<Rightarrow> 7 | Some x \<Rightarrow> (9::nat)"
  from duplicate_one_step[OF Suc.prems, of "now i"]
  obtain d h1 where one: "duplicate_one (now i) a h = Inr (d, h1)"
      "next_addr h1 = next_addr h + ?K"
      "\<forall>p. p < next_addr h \<or> next_addr h1 \<le> p \<longrightarrow> cells h1 p = cells h p"
      "dup_at h1 tcmd tf tro tlo v ri (now i) (next_addr h) d"
    by blast
  have ok1: "heap_ok h1"
    unfolding heap_ok_def
  proof (intro allI impI)
    fix p assume "cells h1 p \<noteq> None"
    show "p < next_addr h1"
    proof (rule ccontr)
      assume "\<not> p < next_addr h1"
      then have "next_addr h1 \<le> p" by simp
      with one(3) have "cells h1 p = cells h p" by blast
      with \<open>cells h1 p \<noteq> None\<close> Suc.prems(1) have "p < next_addr h" by (simp add: heap_ok_def)
      with one(2) \<open>next_addr h1 \<le> p\<close> show False by simp
    qed
  qed
  have fr1: "\<forall>p<next_addr h. cells h1 p = cells h p"
    using one(3) by blast
  have src1: "source_is h1 a tcmd tf tro tlo v ri"
    using source_is_frame[OF Suc.prems(1) fr1 Suc.prems(2)] .
  from Suc.IH[OF ok1 src1, of "Suc i" "acc @ [d]"]
  obtain ds h' where rest: "duplicate_loop now a (Suc i) k (acc @ [d]) h1 = Inr ((acc @ [d]) @ ds, h')"
      "length ds = k" "heap_ok h'"
      "next_addr h' = next_addr h1 + k * ?K"
      "\<forall>p<next_addr h1. cells h' p = cells h1 p"
      "\<forall>m<k. dup_at h' tcmd tf tro tlo v ri (now (Suc i + m)) (next_addr h1 + m * ?K) (ds ! m)"
    by blast
  have first: "dup_at h' tcmd tf tro tlo v ri (now i) (next_addr h) d"
    using dup_at_frame[OF one(4), of "next_addr h1" h'] rest(5) one(2)
    by (cases ri) auto
  have blocks: "dup_at h' tcmd tf tro tlo v ri (now (i + m)) (next_addr h + m * ?K) ((d # ds) ! m)"
    if "m < Suc k" for m
  proof (cases m)
    case 0
    with first show ?thesis by simp
  next
    case (Suc m')
    with that have "m' < k" by simp
    with rest(6) have "dup_at h' tcmd tf tro tlo v ri (now (Suc i + m')) (next_addr h1 + m' * ?K) (ds ! m')"
      by blast
    then show ?thesis
      using Suc one(2) by (simp add: algebra_simps)
  qed
  have frame: "\<forall>p<next_addr h. cells h' p = cells h p"
    using fr1 rest(5) one(2) by auto
  have "duplicate_loop now a i (Suc k) acc h = Inr (acc @ d # ds, h')"
    using one(1) rest(1) by simp
  moreover have "length (d # ds) = Suc k" using rest(2) by simp
  moreover have "next_addr h' = next_addr h + Suc k * ?K"
    using rest(4) one(2) by simp
  ultimately show ?case
    using rest(3) frame blocks by blast
qed

lemma dup_at_owned:
  assumes "dup_at h tcmd tf tro tlo v ri now b d"
  shows "set (owned h d) = {b ..< b + (case ri of None \<Rightarrow> 7 | Some x \<Rightarrow> 9)}"
    and "distinct (owned h d)"
    and "length (owned h d) = (case ri of None \<Rightarrow> 7 | Some x \<Rightarrow> 9)"
proof -
  have o: "owned h d = (case ri of
              None \<Rightarrow> [b + 5, b, b + 1, b + 2, b + 3, b + 4, b + 6]
            | Some x \<Rightarrow> [b + 7, b, b + 1, b + 2, b + 5, b + 6, b + 8, b + 4, b + 3])"
    using assms
    by (cases ri) (auto simp: dup_at_def owned_def List.map_filter_simps)
  show "distinct (owned h d)"
    unfolding o by (cases ri) auto
  show "length (owned h d) = (case ri of None \<Rightarrow> 7 | Some x \<Rightarrow> 9)"
    unfolding o by (cases ri) auto
  show "set (owned h d) = {b ..< b + (case ri of None \<Rightarrow> 7 | Some x \<Rightarrow> 9)}"
    unfolding o by (cases ri) (auto simp: atLeastLessThan_def)
qed

lemma dup_at_values:
  assumes "dup_at h tcmd tf tro tlo v ri now b d"
  shows "values_of h d = Some (Some tcmd, Some tf, Some tro, Some tlo, v)"
    and "sink_of h d = Some (OutErr_obj \<lparr>Stdout = [], Stderr = []\<rparr>)"
    and "Environment_addr h d = (case ri of None \<Rightarrow> None | Some (env, lbl) \<Rightarrow> env)"
    and "Labels_addr h d = (case ri of None \<Rightarrow> None | Some (env, lbl) \<Rightarrow> lbl)"
  using assms
  by (cases ri; auto simp: dup_at_def values_of_def sink_of_def Environment_addr_def Labels_addr_def
        copy_Command_def copy_Forecast_def copy_RemoteExecutionOptions_def
        copy_LocalExecutionOptions_def)+

lemma source_is_values:
  assumes "source_is h a tcmd tf tro tlo v ri"
  shows "values_of h a = Some (Some tcmd, Some tf, Some tro, Some tlo, v)"
    and "Environment_addr h a = (case ri of None \<Rightarrow> None | Some (env, lbl) \<Rightarrow> env)"
    and "Labels_addr h a = (case ri of None \<Rightarrow> None | Some (env, lbl) \<Rightarrow> lbl)"
    and "block_size h a = (case ri of None \<Rightarrow> 7 | Some x \<Rightarrow> 9)"
  using assms
  by (cases ri; auto simp: source_is_def values_of_def Environment_addr_def Labels_addr_def
        block_size_def)+

lemma blocks_disjoint:
  fixes K :: nat
  assumes "i \<noteq> j"
  shows "{b + i * K ..< b + i * K + K} \<inter> {b + j * K ..< b + j * K + K} = {}"
proof -
  have "i < j \<or> j < i" using assms by auto
  then show ?thesis
  proof
    assume "i < j"
    then have "Suc i \<le> j" by simp
    then have "Suc i * K \<le> j * K" by (rule mult_le_mono1)
    then show ?thesis by auto
  next
    assume "j < i"
    then have "Suc j \<le> i" by simp
    then have "Suc j * K \<le> i * K" by (rule mult_le_mono1)
    then show ?thesis by auto
  qed
qed

lemma held_eq:
  assumes "values_of h' d = values_of h a" "Environment_addr h' d = Environment_addr h a"
    "Labels_addr h' d = Labels_addr h a"
  shows "held h' d = held h a"
  using assms by (simp add: held_def)

text \<open>
  Claim C9, as amended. For a source action \<open>duplicate\<close> can copy (a non-nil action whose
  log record, if it has one, has a \<open>LocalMetadata\<close> message) and every \<open>n\<close>, \<open>duplicate(n)\<close>
  returns \<open>n\<close> actions (none for a negative \<open>n\<close>) and leaves every object that existed
  before as it was. Each duplicate holds value copies of the source's command, forecast
  and option messages, the other fields of the struct as they are, an empty output sink,
  and a log record; the objects it has for itself (its struct, the structs of its
  command, forecast and two option messages, the sink, the log record with its
  \<open>LocalMetadata\<close> message and \<open>EventTimes\<close> map) are new, and no object of one duplicate is
  an object of another, so that writing to an object of one duplicate (assigning to a
  field of its command or of an option message, say) changes no object of another. What
  these objects hold by reference is not copied: the \<open>Environment\<close> and \<open>Labels\<close> maps of
  the log record, the backing arrays of the command's slices and what its pointers
  refer to, and whatever the forecast and the option messages refer to are the source's
  own, the same for every duplicate, and (the source's references being allocated) none
  of them is an object a duplicate has for itself.
\<close>

theorem duplicate_independent:
  assumes "heap_ok h" "source_ok h a"
  shows "\<exists>ds h'. duplicate now (Some a) n h = Inr (ds, h')
     \<and> length ds = nat n
     \<and> (\<forall>p<next_addr h. cells h' p = cells h p)
     \<and> (\<forall>i<length ds.
          values_of h' (ds ! i) = values_of h a
        \<and> sink_of h' (ds ! i) = Some (OutErr_obj \<lparr>Stdout = [], Stderr = []\<rparr>)
        \<and> distinct (owned h' (ds ! i))
        \<and> length (owned h' (ds ! i)) = block_size h a
        \<and> (\<forall>p\<in>set (owned h' (ds ! i)). next_addr h \<le> p)
        \<and> Environment_addr h' (ds ! i) = Environment_addr h a
        \<and> Labels_addr h' (ds ! i) = Labels_addr h a
        \<and> held h' (ds ! i) = held h a
        \<and> (\<forall>j<length ds. i \<noteq> j \<longrightarrow>
              set (owned h' (ds ! i)) \<inter> set (owned h' (ds ! j)) = {}
              \<and> (\<forall>p\<in>set (owned h' (ds ! i)). \<forall>x. \<forall>q\<in>set (owned h' (ds ! j)).
                    cells (store p x h') q = cells h' q))
        \<and> (\<forall>j<length ds. (\<forall>p\<in>set (held h a). p < next_addr h) \<longrightarrow>
              set (held h' (ds ! i)) \<inter> set (owned h' (ds ! j)) = {}))"
proof -
  from source_ok_is[OF assms(2)]
  obtain tcmd tf tro tlo v ri where src: "source_is h a tcmd tf tro tlo v ri"
    by blast
  let ?K = "case ri of None \<Rightarrow> 7 | Some x \<Rightarrow> (9::nat)"
  from duplicate_loop_blocks[OF assms(1) src, of now 0 "nat n" "[]"]
  obtain ds h' where run: "duplicate_loop now a 0 (nat n) [] h = Inr (ds, h')"
      "length ds = nat n"
      "\<forall>p<next_addr h. cells h' p = cells h p"
      "\<forall>m<nat n. dup_at h' tcmd tf tro tlo v ri (now m) (next_addr h + m * ?K) (ds ! m)"
    by auto
  have each: "values_of h' (ds ! i) = values_of h a
        \<and> sink_of h' (ds ! i) = Some (OutErr_obj \<lparr>Stdout = [], Stderr = []\<rparr>)
        \<and> distinct (owned h' (ds ! i))
        \<and> length (owned h' (ds ! i)) = block_size h a
        \<and> (\<forall>p\<in>set (owned h' (ds ! i)). next_addr h \<le> p)
        \<and> Environment_addr h' (ds ! i) = Environment_addr h a
        \<and> Labels_addr h' (ds ! i) = Labels_addr h a"
    if "i < length ds" for i
  proof -
    from that run(2,4) have d: "dup_at h' tcmd tf tro tlo v ri (now i) (next_addr h + i * ?K) (ds ! i)"
      by simp
    show ?thesis
      using dup_at_owned[OF d] dup_at_values[OF d] source_is_values[OF src]
      by simp
  qed
  have hld: "held h' (ds ! i) = held h a" if "i < length ds" for i
    using each[OF that] by (intro held_eq) simp_all
  have pair: "set (owned h' (ds ! i)) \<inter> set (owned h' (ds ! j)) = {}
              \<and> (\<forall>p\<in>set (owned h' (ds ! i)). \<forall>x. \<forall>q\<in>set (owned h' (ds ! j)).
                    cells (store p x h') q = cells h' q)"
    if "i < length ds" "j < length ds" "i \<noteq> j" for i j
  proof -
    from that run(2,4) have d: "dup_at h' tcmd tf tro tlo v ri (now i) (next_addr h + i * ?K) (ds ! i)"
        "dup_at h' tcmd tf tro tlo v ri (now j) (next_addr h + j * ?K) (ds ! j)"
      by simp_all
    have dis: "set (owned h' (ds ! i)) \<inter> set (owned h' (ds ! j)) = {}"
      using dup_at_owned(1)[OF d(1)] dup_at_owned(1)[OF d(2)]
        blocks_disjoint[OF that(3), of "next_addr h" ?K]
      by simp
    then have "cells (store p x h') q = cells h' q"
      if "p \<in> set (owned h' (ds ! i))" "q \<in> set (owned h' (ds ! j))" for p q x
      using that by (auto simp: store_def)
    with dis show ?thesis by blast
  qed
  have apart: "set (held h' (ds ! i)) \<inter> set (owned h' (ds ! j)) = {}"
    if "i < length ds" "j < length ds" "\<forall>p\<in>set (held h a). p < next_addr h" for i j
  proof -
    have "\<forall>p\<in>set (owned h' (ds ! j)). next_addr h \<le> p"
      using each[OF that(2)] by blast
    with that(3) hld[OF that(1)] show ?thesis
      by fastforce
  qed
  have "duplicate now (Some a) n h = Inr (ds, h')"
    using run(1) by (simp add: duplicate_def)
  then show ?thesis
    using run(2,3) each hld pair apart by blast
qed

theorem duplicate_independent_witness:
  "\<exists>ds h'. duplicate (\<lambda>i. 1000 + int i) (Some 13) 2 example_heap = Inr (ds, h')
      \<and> length ds = 2
      \<and> values_of h' (ds ! 0) = values_of example_heap 13
      \<and> values_of h' (ds ! 1) = values_of example_heap 13
      \<and> set (owned h' (ds ! 0)) \<inter> set (owned h' (ds ! 1)) = {}
      \<and> length (owned h' (ds ! 0)) = 9
      \<and> Environment_addr h' (ds ! 0) = Some 5
      \<and> Environment_addr h' (ds ! 1) = Some 5
      \<and> held h' (ds ! 0) = [2, 0, 1, 5, 6]
      \<and> held h' (ds ! 1) = [2, 0, 1, 5, 6]
      \<and> set (held h' (ds ! 0)) \<inter> set (owned h' (ds ! 1)) = {}"
proof -
  have ok: "heap_ok example_heap"
    by (auto simp: heap_ok_def example_heap_def split: if_splits)
  have src: "source_ok example_heap 13"
    by (simp add: source_ok_def example_heap_def values_of_def copy_Command_def copy_Forecast_def
          copy_RemoteExecutionOptions_def copy_LocalExecutionOptions_def)
  have e: "Environment_addr example_heap 13 = Some 5" "block_size example_heap 13 = 9"
    by (simp_all add: Environment_addr_def block_size_def example_heap_def)
  have hd: "held example_heap 13 = [2, 0, 1, 5, 6]"
    by (simp add: held_def values_of_def example_heap_def copy_Command_def copy_Forecast_def
          copy_RemoteExecutionOptions_def copy_LocalExecutionOptions_def Command_refs_def
          zero_slice_def Environment_addr_def Labels_addr_def List.map_filter_simps)
  have al: "\<forall>p\<in>set (held example_heap 13). p < next_addr example_heap"
    by (simp add: hd) (simp add: example_heap_def)
  from duplicate_independent[OF ok src, of "\<lambda>i. 1000 + int i" 2]
  obtain ds h' where d: "duplicate (\<lambda>i. 1000 + int i) (Some 13) 2 example_heap = Inr (ds, h')"
      "length ds = nat 2"
      "\<forall>i<length ds.
          values_of h' (ds ! i) = values_of example_heap 13
        \<and> sink_of h' (ds ! i) = Some (OutErr_obj \<lparr>Stdout = [], Stderr = []\<rparr>)
        \<and> distinct (owned h' (ds ! i))
        \<and> length (owned h' (ds ! i)) = block_size example_heap 13
        \<and> (\<forall>p\<in>set (owned h' (ds ! i)). next_addr example_heap \<le> p)
        \<and> Environment_addr h' (ds ! i) = Environment_addr example_heap 13
        \<and> Labels_addr h' (ds ! i) = Labels_addr example_heap 13
        \<and> held h' (ds ! i) = held example_heap 13
        \<and> (\<forall>j<length ds. i \<noteq> j \<longrightarrow>
              set (owned h' (ds ! i)) \<inter> set (owned h' (ds ! j)) = {}
              \<and> (\<forall>p\<in>set (owned h' (ds ! i)). \<forall>x. \<forall>q\<in>set (owned h' (ds ! j)).
                    cells (store p x h') q = cells h' q))
        \<and> (\<forall>j<length ds. (\<forall>p\<in>set (held example_heap 13). p < next_addr example_heap) \<longrightarrow>
              set (held h' (ds ! i)) \<inter> set (owned h' (ds ! j)) = {})"
    by blast
  have len: "length ds = 2"
    using d(2) by simp
  from d(2,3) have i0: "values_of h' (ds ! 0) = values_of example_heap 13"
      "length (owned h' (ds ! 0)) = 9" "Environment_addr h' (ds ! 0) = Some 5"
      "set (owned h' (ds ! 0)) \<inter> set (owned h' (ds ! 1)) = {}"
      "held h' (ds ! 0) = [2, 0, 1, 5, 6]"
    using e hd by (auto simp: numeral_2_eq_2)
  have z: "0 < length ds" "1 < length ds"
    using len by simp_all
  from d(3) z(1) have "\<forall>j<length ds.
      (\<forall>p\<in>set (held example_heap 13). p < next_addr example_heap) \<longrightarrow>
      set (held h' (ds ! 0)) \<inter> set (owned h' (ds ! j)) = {}"
    by blast
  with z(2) al have i01: "set (held h' (ds ! 0)) \<inter> set (owned h' (ds ! 1)) = {}"
    by blast
  from d(2,3) have i1: "values_of h' (ds ! 1) = values_of example_heap 13"
      "Environment_addr h' (ds ! 1) = Some 5" "held h' (ds ! 1) = [2, 0, 1, 5, 6]"
    using e hd by (auto simp: numeral_2_eq_2)
  show ?thesis
    using d(1) len i0 i01 i1 by blast
qed

text \<open>
  Claim C9 as it is stated fails: the two duplicates of the example share the
  \<open>Environment\<close> map of their log records, so an entry written through the log record of
  the first (\<open>rec.LocalMetadata.Environment["CC"] = "gcc"\<close>) shows in the log record of
  the second.
\<close>

theorem duplicate_shares_Environment_counterexample:
  "map_sum id fst example_duplicates = Inr [21, 30]
   \<and> get_Environment 30 ''CC'' (snd (projr example_duplicates)) = None
   \<and> get_Environment 30 ''CC''
       (set_Environment 21 ''CC'' ''gcc'' (snd (projr example_duplicates))) = Some ''gcc''"
  by (simp add: example_duplicates_def duplicate_def duplicate_one_def example_heap_def new_def
      store_def new_LocalMetadata_def copy_Command_def copy_Forecast_def
      copy_RemoteExecutionOptions_def copy_LocalExecutionOptions_def numeral_2_eq_2
      get_Environment_def set_Environment_def Environment_addr_def)

text \<open>
  The same holds of the command: the duplicates' commands are structs of their own, so
  an assignment to a field of one (\<open>cmd.ExecRoot = "/x"\<close>) does not show in another, but
  their \<open>Args\<close> slices have the backing array of the source's, so an element written
  through one (\<open>cmd.Args[0] = "gcc"\<close>) shows in the other duplicate and in the source.
\<close>

lemma duplicates_share_Args_array:
  "map_sum id fst example_duplicates = Inr [21, 30]
   \<and> get_Args 30 0 (snd (projr example_duplicates)) = Some ''clang''
   \<and> get_Args 30 0 (set_Args 21 0 ''gcc'' (snd (projr example_duplicates))) = Some ''gcc''
   \<and> get_Args 13 0 (set_Args 21 0 ''gcc'' (snd (projr example_duplicates))) = Some ''gcc''
   \<and> get_ExecRoot 30 (snd (projr example_duplicates)) = Some ''/w''
   \<and> get_ExecRoot 21 (set_ExecRoot 21 ''/x'' (snd (projr example_duplicates))) = Some ''/x''
   \<and> get_ExecRoot 30 (set_ExecRoot 21 ''/x'' (snd (projr example_duplicates))) = Some ''/w''"
  by (simp add: example_duplicates_def duplicate_def duplicate_one_def example_heap_def new_def
      store_def new_LocalMetadata_def copy_Command_def copy_Forecast_def
      copy_RemoteExecutionOptions_def copy_LocalExecutionOptions_def numeral_2_eq_2
      get_Args_def set_Args_def Args_array_def Command_of_def get_ExecRoot_def set_ExecRoot_def)

text \<open>
  The source's log record must have its \<open>LocalMetadata\<close> message: without it,
  \<open>a.rec.LocalMetadata.Environment\<close> is a nil-pointer dereference and \<open>duplicate\<close> panics.
\<close>

lemma duplicate_panics_without_LocalMetadata:
  "duplicate (\<lambda>i. 1000 + int i) (Some 13) 1
     (example_heap\<lparr>cells := (cells example_heap)(9 \<mapsto> LogRecord_obj None None)\<rparr>)
   = Inl (go_panic nil_pointer_dereference)"
  by (simp add: duplicate_def duplicate_one_def example_heap_def new_def
      store_def new_LocalMetadata_def copy_Command_def copy_Forecast_def
      copy_RemoteExecutionOptions_def copy_LocalExecutionOptions_def)

end
